theory Spec2Isabelle
  imports Main
begin

section \<open>Python string primitives used by the dialog controller\<close>

text \<open>
  Utterances are Python \<^verbatim>\<open>str\<close> values; they are modelled as \<^typ>\<open>string\<close> over the
  ASCII range. \<^verbatim>\<open>str.lower\<close> and \<^verbatim>\<open>str.upper\<close> change the 26 letters and nothing
  else, \<^verbatim>\<open>a in b\<close> is the substring test.
\<close>

text \<open>
  Text within ASCII: no character has its eighth bit set. Where a step's outcome depends
  on how Python classifies characters outside ASCII (its Unicode tables for digits and
  word characters), the model computes the outcome for ASCII text and takes it from the
  environment otherwise.
\<close>

definition is_ascii :: "string \<Rightarrow> bool" where
  "is_ascii s = list_all (\<lambda>c. \<not> digit7 c) s"

definition lower_char :: "char \<Rightarrow> char" where
  "lower_char c =
     (case map_of (zip ''ABCDEFGHIJKLMNOPQRSTUVWXYZ'' ''abcdefghijklmnopqrstuvwxyz'') c of
        Some d \<Rightarrow> d | None \<Rightarrow> c)"

definition upper_char :: "char \<Rightarrow> char" where
  "upper_char c =
     (case map_of (zip ''abcdefghijklmnopqrstuvwxyz'' ''ABCDEFGHIJKLMNOPQRSTUVWXYZ'') c of
        Some d \<Rightarrow> d | None \<Rightarrow> c)"

definition lower :: "string \<Rightarrow> string" where
  "lower s = map lower_char s"

definition upper :: "string \<Rightarrow> string" where
  "upper s = map upper_char s"

fun starts_with :: "string \<Rightarrow> string \<Rightarrow> bool" where
  "starts_with s [] = True"
| "starts_with [] (p # ps) = False"
| "starts_with (c # cs) (p # ps) = (c = p \<and> starts_with cs ps)"

text \<open>\<open>py_in sub s\<close> is Python's \<^verbatim>\<open>sub in s\<close> on strings.\<close>

fun py_in :: "string \<Rightarrow> string \<Rightarrow> bool" where
  "py_in sub [] = (sub = [])"
| "py_in sub (c # cs) = (starts_with (c # cs) sub \<or> py_in sub cs)"

text \<open>
  \<^verbatim>\<open>if command:\<close> on the value returned by \<^verbatim>\<open>listen_for_command()\<close>: both
  \<^verbatim>\<open>None\<close> and the empty string are falsy.
\<close>

fun truthy :: "string option \<Rightarrow> string option" where
  "truthy None = None"
| "truthy (Some s) = (if s = [] then None else Some s)"

subsection \<open>The three regular expressions\<close>

text \<open>
  \<^verbatim>\<open>re.search\<close> tries the start positions from left to right. \<open>\b\<close> holds at a
  position when exactly one of the characters before and after it is a word character
  (letter, digit or underscore; the ends of the string count as non-word). The flag
  \<open>prev\<close> says whether the character before the current position is a word character.
  The two classes below are what \<^verbatim>\<open>\d\<close> and \<^verbatim>\<open>\w\<close> match within ASCII; the age
  and day parsers apply them to ASCII text only.
\<close>

definition is_ascii_digit :: "char \<Rightarrow> bool" where
  "is_ascii_digit c = (c \<in> set ''0123456789'')"

definition is_upper_alnum :: "char \<Rightarrow> bool" where
  "is_upper_alnum c = (c \<in> set ''ABCDEFGHIJKLMNOPQRSTUVWXYZ0123456789'')"

definition is_ascii_word_char :: "char \<Rightarrow> bool" where
  "is_ascii_word_char c =
     (c \<in> set ''abcdefghijklmnopqrstuvwxyzABCDEFGHIJKLMNOPQRSTUVWXYZ0123456789_'')"

fun boundary :: "bool \<Rightarrow> string \<Rightarrow> bool" where
  "boundary prev [] = prev"
| "boundary prev (c # cs) = (prev \<noteq> is_ascii_word_char c)"

fun re_search :: "(bool \<Rightarrow> string \<Rightarrow> string option) \<Rightarrow> bool \<Rightarrow> string \<Rightarrow> string option" where
  "re_search m prev [] = m prev []"
| "re_search m prev (c # cs) =
     (case m prev (c # cs) of
        Some g \<Rightarrow> Some g
      | None \<Rightarrow> re_search m (is_ascii_word_char c) cs)"

text \<open>
  \<^verbatim>\<open>\b(\d+)\b\<close> at one position: the greedy run of digits, then a boundary. A shorter
  run would end between two digits, where there is no boundary, so backtracking never
  succeeds.
\<close>

definition match_digits :: "bool \<Rightarrow> string \<Rightarrow> string option" where
  "match_digits prev s =
     (let run = takeWhile is_ascii_digit s; rest = dropWhile is_ascii_digit s in
      if boundary prev s \<and> run \<noteq> [] \<and> boundary True rest then Some run else None)"

text \<open>\<^verbatim>\<open>\b(\d{1,2})\b\<close> at one position: at most two digits, then a boundary.\<close>

definition match_day :: "bool \<Rightarrow> string \<Rightarrow> string option" where
  "match_day prev s =
     (let run = takeWhile is_ascii_digit (take 2 s); rest = drop (length run) s in
      if boundary prev s \<and> run \<noteq> [] \<and> boundary True rest then Some run else None)"

text \<open>\<^verbatim>\<open>\b([A-Z0-9]{8})\b\<close> at one position: exactly eight characters, then a boundary.\<close>

definition match_id :: "bool \<Rightarrow> string \<Rightarrow> string option" where
  "match_id prev s =
     (let tok = take 8 s; rest = drop 8 s in
      if boundary prev s \<and> length tok = 8 \<and> list_all is_upper_alnum tok \<and> boundary True rest
      then Some tok else None)"

definition search_age :: "string \<Rightarrow> string option" where
  "search_age s = re_search match_digits False s"

definition search_day :: "string \<Rightarrow> string option" where
  "search_day s = re_search match_day False s"

text \<open>The ticket-id pattern is always applied to the upper-cased utterance.\<close>

definition search_id :: "string \<Rightarrow> string option" where
  "search_id s = re_search match_id False (upper s)"

subsection \<open>Numbers and text\<close>

definition digit_val :: "char \<Rightarrow> nat" where
  "digit_val c =
     (case map_of (zip ''0123456789'' [0, 1, 2, 3, 4, 5, 6, 7, 8, 9]) c of
        Some d \<Rightarrow> d | None \<Rightarrow> 0)"

text \<open>The value of a string of ASCII decimal digits.\<close>

definition nat_of_digits :: "string \<Rightarrow> nat" where
  "nat_of_digits ds = foldl (\<lambda>n c. 10 * n + digit_val c) 0 ds"

definition int_of_digits :: "string \<Rightarrow> int" where
  "int_of_digits ds = int (nat_of_digits ds)"

text \<open>
  \<^verbatim>\<open>int(digits)\<close> for a string of ASCII decimal digits. The integers are unbounded,
  but the interpreter refuses a string of more digits than its limit (4300 by default
  from CPython 3.11 on; 0 stands for no limit) with \<^verbatim>\<open>ValueError\<close>, which is
  \<open>None\<close> here.
\<close>

definition py_int :: "nat \<Rightarrow> string \<Rightarrow> int option" where
  "py_int max_str_digits ds =
     (if max_str_digits \<noteq> 0 \<and> max_str_digits < length ds then None
      else Some (int_of_digits ds))"

definition digit_char :: "nat \<Rightarrow> char" where
  "digit_char d = ''0123456789'' ! (d mod 10)"

fun str_nat :: "nat \<Rightarrow> string" where
  "str_nat n = (if n < 10 then [digit_char n] else str_nat (n div 10) @ [digit_char (n mod 10)])"

declare str_nat.simps [simp del]

text \<open>\<^verbatim>\<open>str(i)\<close>, as an f-string renders an integer.\<close>

definition str_int :: "int \<Rightarrow> string" where
  "str_int i = (if i < 0 then ''-'' @ str_nat (nat (- i)) else str_nat (nat i))"

text \<open>\<^verbatim>\<open>", ".join(xs)\<close>.\<close>

fun join_comma :: "string list \<Rightarrow> string" where
  "join_comma [] = []"
| "join_comma [x] = x"
| "join_comma (x # y # ys) = x @ '', '' @ join_comma (y # ys)"

section \<open>Calendar dates\<close>

text \<open>
  The code keeps a travel date as the text \<^verbatim>\<open>strftime("%Y-%m-%d")\<close> of a valid
  \<^verbatim>\<open>datetime\<close> and parses it back before it speaks it. The model keeps the triple
  (year, month, day) and renders it; the clock's year is taken to have four digits.
\<close>

type_synonym date = "nat \<times> nat \<times> nat"

definition is_leap :: "nat \<Rightarrow> bool" where
  "is_leap y = (y mod 4 = 0 \<and> (y mod 100 \<noteq> 0 \<or> y mod 400 = 0))"

definition days_in_month :: "nat \<Rightarrow> nat \<Rightarrow> nat" where
  "days_in_month y m =
     (if m = 2 then (if is_leap y then 29 else 28)
      else if m = 4 \<or> m = 6 \<or> m = 9 \<or> m = 11 then 30 else 31)"

text \<open>\<^verbatim>\<open>datetime(y, m, d)\<close> raises \<^verbatim>\<open>ValueError\<close> exactly when this is false.\<close>

definition valid_date :: "nat \<Rightarrow> nat \<Rightarrow> nat \<Rightarrow> bool" where
  "valid_date y m d =
     (1 \<le> y \<and> y \<le> 9999 \<and> 1 \<le> m \<and> m \<le> 12 \<and> 1 \<le> d \<and> d \<le> days_in_month y m)"

text \<open>\<^verbatim>\<open>datetime.now() + timedelta(days=1)\<close>, date part.\<close>

definition tomorrow :: "date \<Rightarrow> date" where
  "tomorrow dt =
     (case dt of (y, m, d) \<Rightarrow>
        if d < days_in_month y m then (y, m, d + 1)
        else if m < 12 then (y, m + 1, 1)
        else (y + 1, 1, 1))"

definition pad2 :: "nat \<Rightarrow> string" where
  "pad2 n = (if n < 10 then ''0'' @ str_nat n else str_nat n)"

definition month_names :: "string list" where
  "month_names =
     [''January'', ''February'', ''March'', ''April'', ''May'', ''June'',
      ''July'', ''August'', ''September'', ''October'', ''November'', ''December'']"

text \<open>\<^verbatim>\<open>strftime("%B %d, %Y")\<close>.\<close>

definition long_date :: "date \<Rightarrow> string" where
  "long_date dt =
     (case dt of (y, m, d) \<Rightarrow>
        (month_names ! (m - 1)) @ '' '' @ pad2 d @ '', '' @ str_nat y)"

text \<open>
  The month scan of the travel-date step: the dictionary \<^verbatim>\<open>months\<close> is walked in
  insertion order (January first) and the first name found in the utterance wins.
\<close>

definition months :: "(string \<times> nat) list" where
  "months =
     [(''january'', 1), (''february'', 2), (''march'', 3), (''april'', 4), (''may'', 5),
      (''june'', 6), (''july'', 7), (''august'', 8), (''september'', 9), (''october'', 10),
      (''november'', 11), (''december'', 12)]"

definition find_month :: "string \<Rightarrow> nat option" where
  "find_month date_input =
     map_option snd (find (\<lambda>(month_name, month_value). py_in month_name date_input) months)"

section \<open>Tickets and the ticket store\<close>

record ticket =
  t_id :: string
  t_name :: string
  t_age :: int
  t_gender :: string
  t_source :: string
  t_destination :: string
  t_travel_date :: "date option"
  t_booking_time :: string

text \<open>
  \<^verbatim>\<open>st.session_state.ticket_details\<close> is a dictionary; a key that is not in it is
  \<open>None\<close> here. \<^verbatim>\<open>dict(ticket)\<close> copies every key of a ticket.
\<close>

record details =
  d_id :: "string option"
  d_name :: "string option"
  d_age :: "int option"
  d_gender :: "string option"
  d_source :: "string option"
  d_destination :: "string option"
  d_travel_date :: "date option"
  d_booking_time :: "string option"

definition empty_details :: details where
  "empty_details =
     \<lparr>d_id = None, d_name = None, d_age = None, d_gender = None, d_source = None,
      d_destination = None, d_travel_date = None, d_booking_time = None\<rparr>"

definition dict_of_ticket :: "ticket \<Rightarrow> details" where
  "dict_of_ticket t =
     \<lparr>d_id = Some (t_id t), d_name = Some (t_name t), d_age = Some (t_age t),
      d_gender = Some (t_gender t), d_source = Some (t_source t),
      d_destination = Some (t_destination t), d_travel_date = t_travel_date t,
      d_booking_time = Some (t_booking_time t)\<rparr>"

text \<open>
  Modelled from the spec: the module \<^verbatim>\<open>ticket_operations\<close> is imported by
  \<^verbatim>\<open>app.py\<close> and is not among the sources. Section 4.3 of the specification gives
  its operations: \<open>find_by_id\<close> returns the ticket with that id or nothing.
\<close>

definition get_ticket_by_id :: "string \<Rightarrow> ticket list \<Rightarrow> ticket option" where
  "get_ticket_by_id ticket_id tickets = find (\<lambda>t. t_id t = ticket_id) tickets"

text \<open>
  Modelled from the spec: \<open>find_by_name\<close> of \<^verbatim>\<open>ticket_operations\<close>, a
  case-insensitive substring match over the name that preserves store order.
\<close>

definition get_tickets_by_name :: "string \<Rightarrow> ticket list \<Rightarrow> ticket list" where
  "get_tickets_by_name nm tickets = filter (\<lambda>t. py_in (lower nm) (lower (t_name t))) tickets"

text \<open>
  Modelled from the spec: \<open>update\<close> of \<^verbatim>\<open>ticket_operations\<close>. It writes the five
  fields into the ticket with that id and returns it, or returns nothing (and changes
  nothing) when the id is not in the store. The Python function changes the list it is
  given; the model returns the new list beside the result.
\<close>

fun modify_ticket ::
  "string \<Rightarrow> string \<Rightarrow> int \<Rightarrow> string \<Rightarrow> string \<Rightarrow> string \<Rightarrow> ticket list
     \<Rightarrow> ticket option \<times> ticket list" where
  "modify_ticket ticket_id nm ag ge so de [] = (None, [])"
| "modify_ticket ticket_id nm ag ge so de (t # ts) =
     (if t_id t = ticket_id then
        (let t' = t\<lparr>t_name := nm, t_age := ag, t_gender := ge, t_source := so,
                     t_destination := de\<rparr>
         in (Some t', t' # ts))
      else (case modify_ticket ticket_id nm ag ge so de ts of
              (r, ts') \<Rightarrow> (r, t # ts')))"

text \<open>
  Modelled from the spec: \<open>delete\<close> of \<^verbatim>\<open>ticket_operations\<close>, which removes the
  ticket with that id and says whether there was one.
\<close>

fun cancel_ticket :: "string \<Rightarrow> ticket list \<Rightarrow> bool \<times> ticket list" where
  "cancel_ticket ticket_id [] = (False, [])"
| "cancel_ticket ticket_id (t # ts) =
     (if t_id t = ticket_id then (True, ts)
      else (case cancel_ticket ticket_id ts of (r, ts') \<Rightarrow> (r, t # ts')))"

text \<open>
  Modelled from the spec: \<open>create\<close> of \<^verbatim>\<open>ticket_operations\<close>. It generates the id
  and sets the booking time; both come from outside the dialog and are parameters here.
  \<^verbatim>\<open>app.py\<close> appends the ticket to the store itself.
\<close>

definition book_ticket ::
  "string \<Rightarrow> string \<Rightarrow> string \<Rightarrow> int \<Rightarrow> string \<Rightarrow> string \<Rightarrow> string \<Rightarrow> date option \<Rightarrow> ticket" where
  "book_ticket new_id stamp nm ag ge so de td =
     \<lparr>t_id = new_id, t_name = nm, t_age = ag, t_gender = ge, t_source = so,
      t_destination = de, t_travel_date = td, t_booking_time = stamp\<rparr>"

section \<open>Station resolver\<close>

text \<open>
  The loop that \<^verbatim>\<open>process_booking\<close> and \<^verbatim>\<open>process_modification\<close> run over
  \<^verbatim>\<open>get_station_list()\<close> (four copies, the same text). \<open>overlap a b\<close> is
  \<^verbatim>\<open>len(set(a) & set(b))\<close>.
\<close>

definition overlap :: "string \<Rightarrow> string \<Rightarrow> nat" where
  "overlap a b = length (remdups (filter (\<lambda>c. c \<in> set b) a))"

definition candidate :: "string \<Rightarrow> string \<Rightarrow> bool" where
  "candidate inp station =
     (py_in (lower inp) (lower station) \<or> py_in (lower station) (lower inp))"

fun match_loop :: "string \<Rightarrow> string list \<Rightarrow> string option \<Rightarrow> nat \<Rightarrow> string option" where
  "match_loop inp [] best_match best_score = best_match"
| "match_loop inp (station # rest) best_match best_score =
     (if candidate inp station then
        (let score = overlap (lower inp) (lower station) in
         if score > best_score then match_loop inp rest (Some station) score
         else match_loop inp rest best_match best_score)
      else match_loop inp rest best_match best_score)"

definition find_best_match :: "string \<Rightarrow> string list \<Rightarrow> string option" where
  "find_best_match inp stations = match_loop inp stations None 0"

section \<open>Session state\<close>

datatype operation = Book | Modify | Cancel | View

datatype booking_step = BName | BAge | BGender | BSource | BDestination | BTravelDate | BConfirm

datatype modify_step =
  MSelectTicket | MSelectField | UpdateName | UpdateAge | UpdateGender | UpdateSource
  | UpdateDestination

datatype cancel_step = CSelectTicket | CConfirm

datatype view_step = DisplayOptions | AskName | AskId | DownloadTicket | ViewOptions

text \<open>
  The attributes of \<^verbatim>\<open>st.session_state\<close> that the controller reads or writes.
  An attribute that may be missing (\<^verbatim>\<open>'modify_step' not in st.session_state\<close>,
  \<^verbatim>\<open>hasattr\<close>, \<^verbatim>\<open>delattr\<close>) is \<open>None\<close> while it is missing;
  \<open>view_step\<close> can also be present with the value \<^verbatim>\<open>None\<close>, which is
  \<open>Some None\<close>. The attributes \<^verbatim>\<open>listening\<close>, \<^verbatim>\<open>voice_message\<close>,
  \<^verbatim>\<open>voice_command\<close>, \<^verbatim>\<open>user_voice_input\<close>, \<^verbatim>\<open>last_prompt\<close>,
  \<^verbatim>\<open>prompt_time\<close> and \<^verbatim>\<open>mic_failed\<close> are initialised and never used
  again; they are left out.
\<close>

record state =
  tickets :: "ticket list"
  current_operation :: "operation option"
  ticket_details :: details
  selected_ticket_id :: "string option"
  booking_step :: "booking_step option"
  modify_step :: "modify_step option"
  cancel_step :: "cancel_step option"
  view_step :: "view_step option option"
  first_run :: bool
  show_success :: bool
  success_message :: string
  current_ticket :: "ticket option"
  last_viewed_ticket_id :: "string option"
  ticket_id_to_download :: "string option"
  selecting_from_matches :: bool

definition initial_state :: state where
  "initial_state =
     \<lparr>tickets = [], current_operation = None, ticket_details = empty_details,
      selected_ticket_id = None, booking_step = None, modify_step = None,
      cancel_step = None, view_step = None, first_run = True, show_success = False,
      success_message = [], current_ticket = None, last_viewed_ticket_id = None,
      ticket_id_to_download = None, selecting_from_matches = False\<rparr>"

text \<open>
  What a turn reads from outside the session: the station catalog
  (\<^verbatim>\<open>get_station_list()\<close>, module \<^verbatim>\<open>stations\<close>), the date of
  \<^verbatim>\<open>datetime.now()\<close>, and the id and booking time that \<^verbatim>\<open>book_ticket\<close>
  would give a new ticket; the interpreter's limit on the digits of \<^verbatim>\<open>int()\<close>; and,
  for an utterance outside ASCII, what the age pattern with \<^verbatim>\<open>int()\<close> and the day
  pattern with \<^verbatim>\<open>int()\<close> yield under Python's Unicode tables.
\<close>

datatype age_parse = Age int | NoMatch | ValueError

record env =
  stations :: "string list"
  today :: date
  new_id :: string
  stamp :: string
  int_max_str_digits :: nat
  unicode_age :: "string \<Rightarrow> age_parse"
  unicode_day :: "string \<Rightarrow> nat option"

text \<open>
  How a script run ends: it returns, it calls \<^verbatim>\<open>st.rerun()\<close>, or an exception leaves
  it. A result carries the texts passed to \<^verbatim>\<open>display_text_as_voice\<close> in that run, in
  order, and the session state the run leaves behind.
\<close>

datatype signal = Returned | Rerun | Raised string

type_synonym result = "signal \<times> string list \<times> state"

definition quote :: string where
  "quote = [CHR 0x27]"

section \<open>Main menu\<close>

definition ticket_line :: "nat \<times> ticket \<Rightarrow> string" where
  "ticket_line p =
     (case p of (idx, t) \<Rightarrow>
        ''Ticket '' @ str_nat (idx + 1) @ '', ID '' @ t_id t @ '', '' @ t_name t
        @ '', from '' @ t_source t @ '' to '' @ t_destination t)"

definition process_main_menu :: "string option \<Rightarrow> state \<Rightarrow> result" where
  "process_main_menu heard s0 =
     (let welcome =
        (if first_run s0 then
           [''Welcome to the Railway Ticket Reservation System. This system is fully controlled by your voice. Say 'Book a ticket', 'Modify a ticket', 'Cancel a ticket', or 'View tickets'.'']
         else []);
          s = s0\<lparr>first_run := False\<rparr>
      in
      case truthy heard of
        Some command \<Rightarrow>
          (let c = lower command in
           if py_in ''book'' c \<or> py_in ''new'' c \<or> py_in ''ticket'' c then
             (Returned,
              welcome @ [''Starting new ticket booking process. Please tell me your name.''],
              s\<lparr>current_operation := Some Book, booking_step := Some BName\<rparr>)
           else if py_in ''modify'' c \<or> py_in ''edit'' c \<or> py_in ''change'' c then
             (if tickets s \<noteq> [] then
                (Returned,
                 welcome
                 @ [''You have the following tickets. You can say the ID number or passenger name of the ticket you want to modify.'']
                 @ map ticket_line (enumerate 0 (tickets s)),
                 s\<lparr>current_operation := Some Modify, modify_step := Some MSelectTicket\<rparr>)
              else
                (Returned,
                 welcome
                 @ [''You don't have any tickets to modify. Say 'Book a ticket' to create a new booking.''],
                 s\<lparr>current_operation := None\<rparr>))
           else if py_in ''cancel'' c \<or> py_in ''delete'' c \<or> py_in ''remove'' c then
             (if tickets s \<noteq> [] then
                (Returned,
                 welcome
                 @ [''You have the following tickets. Please say the ID number or passenger name of the ticket you want to cancel.'']
                 @ map ticket_line (enumerate 0 (tickets s)),
                 s\<lparr>current_operation := Some Cancel, cancel_step := Some CSelectTicket\<rparr>)
              else
                (Returned,
                 welcome
                 @ [''You don't have any tickets to cancel. Say 'Book a ticket' to create a new booking.''],
                 s\<lparr>current_operation := None\<rparr>))
           else if py_in ''view'' c \<or> py_in ''show'' c \<or> py_in ''list'' c \<or> py_in ''all'' c then
             (Returned,
              welcome
              @ [''How would you like to view your tickets? Say 'All tickets' to see all, say a name to search by passenger, or say a ticket ID to see a specific ticket.''],
              s\<lparr>current_operation := Some View, view_step := Some (Some DisplayOptions)\<rparr>)
           else if py_in ''find'' c \<or> py_in ''search'' c \<or> py_in ''my tickets'' c
                   \<or> py_in ''my name'' c then
             (Returned,
              welcome @ [''Please say the passenger name to search for.''],
              s\<lparr>current_operation := Some View, view_step := Some (Some AskName)\<rparr>)
           else if py_in ''ticket id'' c \<or> py_in ''find id'' c \<or> py_in ''search id'' c
                   \<or> py_in ''lookup id'' c \<or> py_in ''ticket number'' c then
             (Returned,
              welcome @ [''Please say the ticket ID you want to look up.''],
              s\<lparr>current_operation := Some View, view_step := Some (Some AskId)\<rparr>)
           else if py_in ''help'' c then
             (Returned,
              welcome
              @ [''Here are the available commands: Say 'Book a ticket' to create a new booking. Say 'Modify a ticket' followed by a name or ID to change an existing ticket. Say 'Cancel a ticket' followed by a name or ID to remove a booking. Say 'View tickets' to see all your bookings. Say 'Ticket ID' followed by your ticket number to look up a specific ticket. Say 'Find tickets' followed by a name to search for tickets by passenger name.''],
              s)
           else
             (Returned,
              welcome @ [''Sorry, I didn't understand that command. Please try again.''],
              s))
      | None \<Rightarrow>
          (Returned,
           welcome
           @ [''I'm listening for your command. Say 'Book a ticket', 'Modify a ticket' followed by a name or ID, 'Cancel a ticket' followed by a name or ID, 'View tickets', 'Look up ticket ID', or 'Search by name'. You can also say 'Help' for a list of all commands.''],
           s))"

section \<open>Booking\<close>

text \<open>One definition for each branch of the \<^verbatim>\<open>if\<close>/\<^verbatim>\<open>elif\<close> chain on \<^verbatim>\<open>booking_step\<close>.\<close>

definition booking_name :: "string option \<Rightarrow> state \<Rightarrow> result" where
  "booking_name heard s =
     (case truthy heard of
        Some nm \<Rightarrow>
          (Returned,
           [''Name recorded as '' @ nm @ ''. Now, please say your age.''],
           s\<lparr>ticket_details := (ticket_details s)\<lparr>d_name := Some nm\<rparr>,
              booking_step := Some BAge\<rparr>)
      | None \<Rightarrow>
          (Returned, [''I couldn't hear your name. Please say your full name.''], s))"

text \<open>
  The three ways through \<^verbatim>\<open>try: age_match = re.search(r'\b(\d+)\b', age_input) ...
  age = int(age_match.group(1)) ... except ValueError\<close>: a number, no match, or the
  \<^verbatim>\<open>ValueError\<close> of \<^verbatim>\<open>int()\<close>.
\<close>

definition parse_age :: "env \<Rightarrow> string \<Rightarrow> age_parse" where
  "parse_age e age_input =
     (if is_ascii age_input then
        (case search_age age_input of
           None \<Rightarrow> NoMatch
         | Some digits \<Rightarrow>
             (case py_int (int_max_str_digits e) digits of
                None \<Rightarrow> ValueError
              | Some age \<Rightarrow> Age age))
      else unicode_age e age_input)"

definition booking_age :: "env \<Rightarrow> string option \<Rightarrow> state \<Rightarrow> result" where
  "booking_age e heard s =
     (case truthy heard of
        Some age_input \<Rightarrow>
          (case parse_age e age_input of
             Age age \<Rightarrow>
               (if 1 \<le> age \<and> age \<le> 120 then
                  (Returned,
                   [''Age recorded as '' @ str_int age
                    @ ''. Now, please say your gender: Male, Female, or Other.''],
                   s\<lparr>ticket_details := (ticket_details s)\<lparr>d_age := Some age\<rparr>,
                      booking_step := Some BGender\<rparr>)
                else
                  (Returned, [''Age must be between 1 and 120. Please try again.''], s))
           | NoMatch \<Rightarrow>
               (Returned,
                [''I couldn't understand your age. Please say a number clearly.''], s)
           | ValueError \<Rightarrow>
               (Returned,
                [''I couldn't understand your age. Please say a number clearly.''], s))
      | None \<Rightarrow>
          (Returned, [''I couldn't hear your age. Please say your age as a number.''], s))"

definition booking_gender :: "string option \<Rightarrow> state \<Rightarrow> result" where
  "booking_gender heard s =
     (case truthy heard of
        Some gender_input0 \<Rightarrow>
          (let gender_input = lower gender_input0 in
           if py_in ''male'' gender_input \<and> \<not> py_in ''female'' gender_input then
             (Returned,
              [''Gender recorded as Male. Now, please say your source station.''],
              s\<lparr>ticket_details := (ticket_details s)\<lparr>d_gender := Some ''Male''\<rparr>,
                 booking_step := Some BSource\<rparr>)
           else if py_in ''female'' gender_input then
             (Returned,
              [''Gender recorded as Female. Now, please say your source station.''],
              s\<lparr>ticket_details := (ticket_details s)\<lparr>d_gender := Some ''Female''\<rparr>,
                 booking_step := Some BSource\<rparr>)
           else
             (Returned,
              [''Gender recorded as Other. Now, please say your source station.''],
              s\<lparr>ticket_details := (ticket_details s)\<lparr>d_gender := Some ''Other''\<rparr>,
                 booking_step := Some BSource\<rparr>))
      | None \<Rightarrow>
          (Returned,
           [''I couldn't hear your gender. Please say Male, Female, or Other.''], s))"

definition no_station_match :: "env \<Rightarrow> string" where
  "no_station_match e =
     ''I couldn't match your station. Please try again. Some examples are: ''
     @ join_comma (take 5 (stations e))"

definition booking_source :: "env \<Rightarrow> string option \<Rightarrow> state \<Rightarrow> result" where
  "booking_source e heard s =
     (case truthy heard of
        Some source_input \<Rightarrow>
          (case find_best_match source_input (stations e) of
             Some best_match \<Rightarrow>
               (Returned,
                [''Source station recorded as '' @ best_match
                 @ ''. Now, please say your destination station.''],
                s\<lparr>ticket_details := (ticket_details s)\<lparr>d_source := Some best_match\<rparr>,
                   booking_step := Some BDestination\<rparr>)
           | None \<Rightarrow> (Returned, [no_station_match e], s))
      | None \<Rightarrow>
          (Returned,
           [''I couldn't hear your source station. Please say the name of your departure station.''],
           s))"

definition booking_destination :: "env \<Rightarrow> string option \<Rightarrow> state \<Rightarrow> result" where
  "booking_destination e heard s =
     (case truthy heard of
        Some destination_input \<Rightarrow>
          (case find_best_match destination_input (stations e) of
             Some best_match \<Rightarrow>
               (if d_source (ticket_details s) = Some best_match then
                  (Returned,
                   [''Source and destination cannot be the same. Please choose a different destination.''],
                   s)
                else
                  (Returned,
                   [''Destination recorded as '' @ best_match
                    @ ''. Now, please say your travel date in the format month day, for example 'March 30' or say 'tomorrow'.''],
                   s\<lparr>ticket_details := (ticket_details s)\<lparr>d_destination := Some best_match\<rparr>,
                      booking_step := Some BTravelDate\<rparr>))
           | None \<Rightarrow> (Returned, [no_station_match e], s))
      | None \<Rightarrow>
          (Returned,
           [''I couldn't hear your destination station. Please say the name of your arrival station.''],
           s))"

text \<open>
  The five keys that \<^verbatim>\<open>ticket_details['name']\<close> and its like read; a missing one
  raises \<^verbatim>\<open>KeyError\<close>.
\<close>

definition required :: "details \<Rightarrow> (string \<times> int \<times> string \<times> string \<times> string) option" where
  "required dt =
     (case d_name dt of None \<Rightarrow> None | Some nm \<Rightarrow>
      case d_age dt of None \<Rightarrow> None | Some ag \<Rightarrow>
      case d_gender dt of None \<Rightarrow> None | Some ge \<Rightarrow>
      case d_source dt of None \<Rightarrow> None | Some so \<Rightarrow>
      case d_destination dt of None \<Rightarrow> None | Some de \<Rightarrow>
        Some (nm, ag, ge, so, de))"

text \<open>The tail of the travel-date step, once \<^verbatim>\<open>travel_date\<close> is set.\<close>

definition record_travel_date :: "date \<Rightarrow> state \<Rightarrow> result" where
  "record_travel_date td s =
     (let s1 = s\<lparr>ticket_details := (ticket_details s)\<lparr>d_travel_date := Some td\<rparr>\<rparr>;
          formatted_date = long_date td;
          recorded = ''Travel date recorded as '' @ formatted_date @ ''.''
      in
      case required (ticket_details s1) of
        None \<Rightarrow> (Raised ''KeyError'', [recorded], s1)
      | Some (nm, ag, ge, so, de) \<Rightarrow>
          (Returned,
           [recorded,
            ''Please confirm: You want to book a ticket for '' @ nm @ '', age '' @ str_int ag
            @ '', gender '' @ ge @ '', from '' @ so @ '' to '' @ de @ '', on ''
            @ formatted_date
            @ ''. Say 'Confirm' to book this ticket or 'Cancel' to abort.''],
           s1\<lparr>booking_step := Some BConfirm\<rparr>))"

text \<open>
  \<^verbatim>\<open>day_match = re.search(r'\b(\d{1,2})\b', date_input)\<close> and
  \<^verbatim>\<open>int(day_match.group(1))\<close>; one or two digits never reach the limit of
  \<^verbatim>\<open>int()\<close>.
\<close>

definition parse_day :: "env \<Rightarrow> string \<Rightarrow> nat option" where
  "parse_day e date_input =
     (if is_ascii date_input then map_option nat_of_digits (search_day date_input)
      else unicode_day e date_input)"

definition booking_travel_date :: "env \<Rightarrow> string option \<Rightarrow> state \<Rightarrow> result" where
  "booking_travel_date e heard s =
     (case truthy heard of
        Some date_input0 \<Rightarrow>
          (let date_input = lower date_input0;
               not_understood =
                 (Returned,
                  [''I couldn't understand the date. Please say a date like 'March 30' or 'tomorrow'.''],
                  s)
           in
           if py_in ''tomorrow'' date_input then record_travel_date (tomorrow (today e)) s
           else if py_in ''today'' date_input then record_travel_date (today e) s
           else
             (case find_month date_input of
                None \<Rightarrow> not_understood
              | Some month_num \<Rightarrow>
                  (case parse_day e date_input of
                     None \<Rightarrow> not_understood
                   | Some day_num \<Rightarrow>
                       (let current_year = fst (today e) in
                        if day_num = 0 then not_understood
                        else if valid_date current_year month_num day_num then
                          record_travel_date (current_year, month_num, day_num) s
                        else
                          (Returned, [''Invalid date. Please provide a valid date.''], s)))))
      | None \<Rightarrow>
          (Returned,
           [''I couldn't hear your travel date. Please say a date like 'March 30' or 'tomorrow'.''],
           s))"

definition booking_confirm :: "env \<Rightarrow> string option \<Rightarrow> state \<Rightarrow> result" where
  "booking_confirm e heard s =
     (case truthy heard of
        Some confirm_input \<Rightarrow>
          (let c = lower confirm_input in
           if py_in ''confirm'' c \<or> py_in ''yes'' c then
             (case required (ticket_details s) of
                None \<Rightarrow> (Raised ''KeyError'', [], s)
              | Some (nm, ag, ge, so, de) \<Rightarrow>
                  (let ticket =
                         book_ticket (new_id e) (stamp e) nm ag ge so de
                           (d_travel_date (ticket_details s))
                   in
                   (Returned,
                    [''Ticket booked successfully! Your ticket ID is '' @ t_id ticket
                     @ ''. The ticket is now displayed on screen with a download option. Returning to main menu.''],
                    s\<lparr>tickets := tickets s @ [ticket],
                       current_ticket := Some ticket,
                       show_success := True,
                       success_message :=
                         ''Ticket booked successfully! Your ticket ID is '' @ t_id ticket
                         @ ''. What would you like to do next?'',
                       current_operation := None,
                       booking_step := None,
                       ticket_details := empty_details\<rparr>)))
           else if py_in ''cancel'' c \<or> py_in ''no'' c then
             (Returned,
              [''Booking cancelled. Returning to main menu.''],
              s\<lparr>current_operation := None, booking_step := None,
                 ticket_details := empty_details\<rparr>)
           else
             (Returned,
              [''Please say 'Confirm' to book the ticket or 'Cancel' to abort.''], s))
      | None \<Rightarrow>
          (Returned,
           [''I couldn't hear your response. Please say 'Confirm' to book the ticket or 'Cancel' to abort.''],
           s))"

definition process_booking :: "env \<Rightarrow> string option \<Rightarrow> state \<Rightarrow> result" where
  "process_booking e heard s =
     (case booking_step s of
        Some BName \<Rightarrow> booking_name heard s
      | Some BAge \<Rightarrow> booking_age e heard s
      | Some BGender \<Rightarrow> booking_gender heard s
      | Some BSource \<Rightarrow> booking_source e heard s
      | Some BDestination \<Rightarrow> booking_destination e heard s
      | Some BTravelDate \<Rightarrow> booking_travel_date e heard s
      | Some BConfirm \<Rightarrow> booking_confirm e heard s
      | None \<Rightarrow> (Returned, [], s))"

section \<open>Modification\<close>

definition match_line :: "ticket \<Rightarrow> string" where
  "match_line t =
     ''Ticket ID '' @ t_id t @ '', '' @ t_name t @ '', from '' @ t_source t @ '' to ''
     @ t_destination t"

definition modify_select_ticket :: "string option \<Rightarrow> state \<Rightarrow> result" where
  "modify_select_ticket heard s =
     (case truthy heard of
        Some ticket_input \<Rightarrow>
          (case search_id ticket_input of
             Some ticket_id \<Rightarrow>
               (case get_ticket_by_id ticket_id (tickets s) of
                  Some ticket \<Rightarrow>
                    (Returned,
                     [''Found ticket for '' @ t_name ticket
                      @ ''. What would you like to modify? Say name, age, gender, source, or destination.''],
                     s\<lparr>selected_ticket_id := Some ticket_id,
                        modify_step := Some MSelectField\<rparr>)
                | None \<Rightarrow>
                    (Returned,
                     [''No ticket found with ID '' @ ticket_id @ ''. Please try again.''], s))
           | None \<Rightarrow>
               (case get_tickets_by_name ticket_input (tickets s) of
                  [] \<Rightarrow>
                    (Returned,
                     [''No tickets found matching that name or ID. Please try again with a different name or ticket ID.''],
                     s)
                | [ticket] \<Rightarrow>
                    (Returned,
                     [''Found ticket for '' @ t_name ticket @ '', from '' @ t_source ticket
                      @ '' to '' @ t_destination ticket
                      @ ''. What would you like to modify? Say name, age, gender, source, or destination.''],
                     s\<lparr>selected_ticket_id := Some (t_id ticket),
                        modify_step := Some MSelectField\<rparr>)
                | t1 # t2 # ts \<Rightarrow>
                    (Returned,
                     [''Found '' @ str_nat (length (t1 # t2 # ts)) @ '' tickets for '' @ quote
                      @ ticket_input @ quote @ ''. Please choose one by saying the ticket ID:'']
                     @ map match_line (t1 # t2 # ts),
                     s\<lparr>selecting_from_matches := True\<rparr>)))
      | None \<Rightarrow>
          (Returned,
           [''I couldn't hear your command. Please say the ID or passenger name of the ticket you want to modify.''],
           s))"

text \<open>
  \<^verbatim>\<open>get_ticket_by_id(st.session_state.selected_ticket_id, st.session_state.tickets)\<close>,
  with the selected id beside the ticket; no ticket has the id \<^verbatim>\<open>None\<close>.
\<close>

definition get_selected_ticket :: "state \<Rightarrow> (string \<times> ticket) option" where
  "get_selected_ticket s =
     (case selected_ticket_id s of
        None \<Rightarrow> None
      | Some selected \<Rightarrow>
          (case get_ticket_by_id selected (tickets s) of
             None \<Rightarrow> None
           | Some ticket \<Rightarrow> Some (selected, ticket)))"

definition modify_reset :: "state \<Rightarrow> state" where
  "modify_reset s =
     s\<lparr>current_operation := None, modify_step := Some MSelectTicket,
        selected_ticket_id := None, ticket_details := empty_details\<rparr>"

text \<open>
  The \<^verbatim>\<open>select_field\<close> branch. The copy \<^verbatim>\<open>ticket_details = dict(ticket)\<close> is made
  on every utterance, before the keywords are tested; \<^verbatim>\<open>dict(None)\<close> raises
  \<^verbatim>\<open>TypeError\<close>.
\<close>

definition modify_select_field :: "string option \<Rightarrow> state \<Rightarrow> result" where
  "modify_select_field heard s =
     (case truthy heard of
        Some field_input \<Rightarrow>
          (let field = lower field_input in
           case get_selected_ticket s of
             None \<Rightarrow> (Raised ''TypeError'', [], s)
           | Some (selected, ticket) \<Rightarrow>
               (let s1 = s\<lparr>ticket_details := dict_of_ticket ticket\<rparr> in
                if py_in ''name'' field then
                  (Returned,
                   [''Current name is '' @ t_name ticket @ ''. Please say the new name.''],
                   s1\<lparr>modify_step := Some UpdateName\<rparr>)
                else if py_in ''age'' field then
                  (Returned,
                   [''Current age is '' @ str_int (t_age ticket) @ ''. Please say the new age.''],
                   s1\<lparr>modify_step := Some UpdateAge\<rparr>)
                else if py_in ''gender'' field then
                  (Returned,
                   [''Current gender is '' @ t_gender ticket @ ''. Please say the new gender.''],
                   s1\<lparr>modify_step := Some UpdateGender\<rparr>)
                else if py_in ''source'' field then
                  (Returned,
                   [''Current source station is '' @ t_source ticket
                    @ ''. Please say the new source station.''],
                   s1\<lparr>modify_step := Some UpdateSource\<rparr>)
                else if py_in ''destination'' field then
                  (Returned,
                   [''Current destination station is '' @ t_destination ticket
                    @ ''. Please say the new destination station.''],
                   s1\<lparr>modify_step := Some UpdateDestination\<rparr>)
                else if py_in ''confirm'' field \<or> py_in ''update'' field \<or> py_in ''save'' field then
                  (case required (ticket_details s1) of
                     None \<Rightarrow> (Raised ''KeyError'', [], s1)
                   | Some (nm, ag, ge, so, de) \<Rightarrow>
                       (case modify_ticket selected nm ag ge so de (tickets s1) of
                          (Some updated_ticket, tickets') \<Rightarrow>
                            (Returned,
                             [''Ticket updated successfully. Returning to main menu.''],
                             modify_reset
                               (s1\<lparr>tickets := tickets',
                                   show_success := True,
                                   success_message :=
                                     ''Ticket updated successfully! What would you like to do next?''\<rparr>))
                        | (None, tickets') \<Rightarrow>
                            (Returned,
                             [''Error updating ticket. Please try again.''],
                             modify_reset (s1\<lparr>tickets := tickets'\<rparr>))))
                else if py_in ''cancel'' field \<or> py_in ''abort'' field then
                  (Returned,
                   [''Modification cancelled. Returning to main menu.''],
                   modify_reset s1)
                else
                  (Returned,
                   [''Please specify what you want to modify: name, age, gender, source, or destination. Or say 'Confirm' to save changes or 'Cancel' to abort.''],
                   s1)))
      | None \<Rightarrow>
          (Returned,
           [''I couldn't hear your command. Please specify what you want to modify: name, age, gender, source, or destination.''],
           s))"

definition modify_update_name :: "string option \<Rightarrow> state \<Rightarrow> result" where
  "modify_update_name heard s =
     (case truthy heard of
        Some name_input \<Rightarrow>
          (Returned,
           [''Name updated to '' @ name_input
            @ ''. What else would you like to modify? Or say 'Confirm' to save changes.''],
           s\<lparr>ticket_details := (ticket_details s)\<lparr>d_name := Some name_input\<rparr>,
              modify_step := Some MSelectField\<rparr>)
      | None \<Rightarrow>
          (Returned, [''I couldn't hear your input. Please say the new name.''], s))"

definition modify_update_age :: "env \<Rightarrow> string option \<Rightarrow> state \<Rightarrow> result" where
  "modify_update_age e heard s =
     (case truthy heard of
        Some age_input \<Rightarrow>
          (case parse_age e age_input of
             Age age \<Rightarrow>
               (if 1 \<le> age \<and> age \<le> 120 then
                  (Returned,
                   [''Age updated to '' @ str_int age
                    @ ''. What else would you like to modify? Or say 'Confirm' to save changes.''],
                   s\<lparr>ticket_details := (ticket_details s)\<lparr>d_age := Some age\<rparr>,
                      modify_step := Some MSelectField\<rparr>)
                else
                  (Returned, [''Age must be between 1 and 120. Please try again.''], s))
           | NoMatch \<Rightarrow>
               (Returned,
                [''I couldn't understand your age. Please say a number clearly.''], s)
           | ValueError \<Rightarrow>
               (Returned,
                [''I couldn't understand your age. Please say a number clearly.''], s))
      | None \<Rightarrow>
          (Returned, [''I couldn't hear your input. Please say the new age.''], s))"

definition modify_update_gender :: "string option \<Rightarrow> state \<Rightarrow> result" where
  "modify_update_gender heard s =
     (case truthy heard of
        Some gender_input0 \<Rightarrow>
          (let gender_input = lower gender_input0 in
           if py_in ''male'' gender_input \<and> \<not> py_in ''female'' gender_input then
             (Returned,
              [''Gender updated to Male. What else would you like to modify? Or say 'Confirm' to save changes.''],
              s\<lparr>ticket_details := (ticket_details s)\<lparr>d_gender := Some ''Male''\<rparr>,
                 modify_step := Some MSelectField\<rparr>)
           else if py_in ''female'' gender_input then
             (Returned,
              [''Gender updated to Female. What else would you like to modify? Or say 'Confirm' to save changes.''],
              s\<lparr>ticket_details := (ticket_details s)\<lparr>d_gender := Some ''Female''\<rparr>,
                 modify_step := Some MSelectField\<rparr>)
           else
             (Returned,
              [''Gender updated to Other. What else would you like to modify? Or say 'Confirm' to save changes.''],
              s\<lparr>ticket_details := (ticket_details s)\<lparr>d_gender := Some ''Other''\<rparr>,
                 modify_step := Some MSelectField\<rparr>))
      | None \<Rightarrow>
          (Returned,
           [''I couldn't hear your input. Please say Male, Female, or Other.''], s))"

definition modify_update_source :: "env \<Rightarrow> string option \<Rightarrow> state \<Rightarrow> result" where
  "modify_update_source e heard s =
     (case truthy heard of
        Some source_input \<Rightarrow>
          (case find_best_match source_input (stations e) of
             Some best_match \<Rightarrow>
               (Returned,
                [''Source station updated to '' @ best_match
                 @ ''. What else would you like to modify? Or say 'Confirm' to save changes.''],
                s\<lparr>ticket_details := (ticket_details s)\<lparr>d_source := Some best_match\<rparr>,
                   modify_step := Some MSelectField\<rparr>)
           | None \<Rightarrow> (Returned, [no_station_match e], s))
      | None \<Rightarrow>
          (Returned,
           [''I couldn't hear your input. Please say the new source station.''], s))"

definition modify_update_destination :: "env \<Rightarrow> string option \<Rightarrow> state \<Rightarrow> result" where
  "modify_update_destination e heard s =
     (case truthy heard of
        Some destination_input \<Rightarrow>
          (case find_best_match destination_input (stations e) of
             Some best_match \<Rightarrow>
               (case d_source (ticket_details s) of
                  None \<Rightarrow> (Raised ''KeyError'', [], s)
                | Some src \<Rightarrow>
                    if src = best_match then
                      (Returned,
                       [''Source and destination cannot be the same. Please choose a different destination.''],
                       s)
                    else
                      (Returned,
                       [''Destination station updated to '' @ best_match
                        @ ''. What else would you like to modify? Or say 'Confirm' to save changes.''],
                       s\<lparr>ticket_details :=
                            (ticket_details s)\<lparr>d_destination := Some best_match\<rparr>,
                          modify_step := Some MSelectField\<rparr>))
           | None \<Rightarrow> (Returned, [no_station_match e], s))
      | None \<Rightarrow>
          (Returned,
           [''I couldn't hear your input. Please say the new destination station.''], s))"

definition process_modification :: "env \<Rightarrow> string option \<Rightarrow> state \<Rightarrow> result" where
  "process_modification e heard s0 =
     (let s = (if modify_step s0 = None then s0\<lparr>modify_step := Some MSelectTicket\<rparr> else s0) in
      case modify_step s of
        Some MSelectTicket \<Rightarrow> modify_select_ticket heard s
      | Some MSelectField \<Rightarrow> modify_select_field heard s
      | Some UpdateName \<Rightarrow> modify_update_name heard s
      | Some UpdateAge \<Rightarrow> modify_update_age e heard s
      | Some UpdateGender \<Rightarrow> modify_update_gender heard s
      | Some UpdateSource \<Rightarrow> modify_update_source e heard s
      | Some UpdateDestination \<Rightarrow> modify_update_destination e heard s
      | None \<Rightarrow> (Returned, [], s))"

section \<open>Cancellation\<close>

definition cancel_select_ticket :: "string option \<Rightarrow> state \<Rightarrow> result" where
  "cancel_select_ticket heard s =
     (case truthy heard of
        Some ticket_input \<Rightarrow>
          (case search_id ticket_input of
             Some ticket_id \<Rightarrow>
               (case get_ticket_by_id ticket_id (tickets s) of
                  Some ticket \<Rightarrow>
                    (Returned,
                     [''Found ticket for '' @ t_name ticket @ '' from '' @ t_source ticket
                      @ '' to '' @ t_destination ticket
                      @ ''. Say 'Confirm' to cancel this ticket or 'No' to keep it.''],
                     s\<lparr>selected_ticket_id := Some ticket_id, cancel_step := Some CConfirm\<rparr>)
                | None \<Rightarrow>
                    (Returned,
                     [''No ticket found with ID '' @ ticket_id @ ''. Please try again.''], s))
           | None \<Rightarrow>
               (case get_tickets_by_name ticket_input (tickets s) of
                  [] \<Rightarrow>
                    (Returned,
                     [''No tickets found matching that name or ID. Please try again with a different name or ticket ID.''],
                     s)
                | [ticket] \<Rightarrow>
                    (Returned,
                     [''Found ticket for '' @ t_name ticket @ '', from '' @ t_source ticket
                      @ '' to '' @ t_destination ticket
                      @ ''. Say 'Confirm' to cancel this ticket or 'No' to keep it.''],
                     s\<lparr>selected_ticket_id := Some (t_id ticket),
                        cancel_step := Some CConfirm\<rparr>)
                | t1 # t2 # ts \<Rightarrow>
                    (Returned,
                     [''Found '' @ str_nat (length (t1 # t2 # ts)) @ '' tickets for '' @ quote
                      @ ticket_input @ quote @ ''. Please choose one by saying the ticket ID:'']
                     @ map match_line (t1 # t2 # ts),
                     s)))
      | None \<Rightarrow>
          (Returned,
           [''I couldn't hear your command. Please say the ID or passenger name of the ticket you want to cancel.''],
           s))"

definition cancel_reset :: "state \<Rightarrow> state" where
  "cancel_reset s =
     s\<lparr>current_operation := None, cancel_step := Some CSelectTicket,
        selected_ticket_id := None\<rparr>"

text \<open>
  \<^verbatim>\<open>cancel_ticket(None, tickets)\<close> finds no ticket, as no ticket has the id
  \<^verbatim>\<open>None\<close>.
\<close>

definition cancel_confirm :: "string option \<Rightarrow> state \<Rightarrow> result" where
  "cancel_confirm heard s =
     (case truthy heard of
        Some confirm_input \<Rightarrow>
          (let c = lower confirm_input in
           if py_in ''confirm'' c \<or> py_in ''yes'' c \<or> py_in ''delete'' c then
             (case (case selected_ticket_id s of
                      None \<Rightarrow> (False, tickets s)
                    | Some selected \<Rightarrow> cancel_ticket selected (tickets s)) of
                (success, tickets') \<Rightarrow>
                  if success then
                    (Returned,
                     [''Ticket cancelled successfully. Returning to main menu.''],
                     cancel_reset
                       (s\<lparr>tickets := tickets',
                          show_success := True,
                          success_message :=
                            ''Ticket cancelled successfully! What would you like to do next?''\<rparr>))
                  else
                    (Returned,
                     [''Error cancelling ticket. Please try again.''],
                     cancel_reset (s\<lparr>tickets := tickets'\<rparr>)))
           else if py_in ''no'' c \<or> py_in ''keep'' c \<or> py_in ''don't'' c then
             (Returned,
              [''Cancellation aborted. Ticket is kept. Returning to main menu.''],
              cancel_reset s)
           else
             (Returned,
              [''Please say 'Confirm' to cancel the ticket or 'No' to keep it.''], s))
      | None \<Rightarrow>
          (Returned,
           [''I couldn't hear your command. Please say 'Confirm' to cancel the ticket or 'No' to keep it.''],
           s))"

definition process_cancellation :: "string option \<Rightarrow> state \<Rightarrow> result" where
  "process_cancellation heard s0 =
     (let s = (if cancel_step s0 = None then s0\<lparr>cancel_step := Some CSelectTicket\<rparr> else s0) in
      case cancel_step s of
        Some CSelectTicket \<Rightarrow> cancel_select_ticket heard s
      | Some CConfirm \<Rightarrow> cancel_confirm heard s
      | None \<Rightarrow> (Returned, [], s))"

section \<open>Viewing\<close>

definition travel_date_str :: "ticket \<Rightarrow> string" where
  "travel_date_str t =
     (case t_travel_date t of
        Some td \<Rightarrow> '', traveling on '' @ long_date td
      | None \<Rightarrow> [])"

definition found_info :: "ticket \<Rightarrow> string" where
  "found_info t =
     ''Found ticket ID '' @ t_id t @ '' for '' @ t_name t @ '', age '' @ str_int (t_age t)
     @ '', gender '' @ t_gender t @ '', from '' @ t_source t @ '' to '' @ t_destination t
     @ travel_date_str t @ '', booked on '' @ t_booking_time t"

definition listing_line :: "nat \<times> ticket \<Rightarrow> string" where
  "listing_line p =
     (case p of (idx, t) \<Rightarrow>
        ''Ticket '' @ str_nat (idx + 1) @ '', ID '' @ t_id t @ '', '' @ t_name t @ '', age ''
        @ str_int (t_age t) @ '', from '' @ t_source t @ '' to '' @ t_destination t
        @ travel_date_str t @ '', booked on '' @ t_booking_time t)"

definition view_reset :: "state \<Rightarrow> state" where
  "view_reset s = s\<lparr>current_operation := None, view_step := Some None\<rparr>"

text \<open>The lookup of \<^verbatim>\<open>display_options\<close> once an id token has been found.\<close>

definition view_lookup :: "string \<Rightarrow> state \<Rightarrow> result" where
  "view_lookup ticket_id s =
     (case get_ticket_by_id ticket_id (tickets s) of
        Some ticket \<Rightarrow>
          (Returned,
           [found_info ticket,
            ''You can download your ticket as a PDF file using the download link on the screen. Say 'download ticket' to get your ticket.''],
           s\<lparr>last_viewed_ticket_id := Some (t_id ticket),
              ticket_id_to_download := Some (t_id ticket),
              current_operation := Some View,
              view_step := Some (Some ViewOptions)\<rparr>)
      | None \<Rightarrow>
          (Returned, [''No ticket found with ID '' @ ticket_id @ ''. Please try again.''], s))"

definition view_all :: "state \<Rightarrow> result" where
  "view_all s =
     (if tickets s \<noteq> [] then
        (Returned,
         [''You have '' @ str_nat (length (tickets s)) @ '' tickets. Here are your tickets:'']
         @ map listing_line (enumerate 0 (tickets s))
         @ [''End of ticket list. Say a new command to continue.''],
         view_reset s)
      else
        (Returned,
         [''You don't have any tickets. Say 'Book a ticket' to create a new booking.''],
         view_reset s))"

definition view_by_name :: "string \<Rightarrow> state \<Rightarrow> result" where
  "view_by_name nm s =
     (let matching_tickets = get_tickets_by_name nm (tickets s) in
      if matching_tickets \<noteq> [] then
        (Returned,
         [''Found '' @ str_nat (length matching_tickets) @ '' tickets for name containing ''
          @ quote @ nm @ quote @ '':'']
         @ map listing_line (enumerate 0 matching_tickets)
         @ [''End of ticket list. Say a new command to continue.''],
         view_reset s)
      else
        (Returned,
         [''No tickets found for name containing '' @ quote @ nm @ quote
          @ ''. Say 'Book a ticket' to create a new booking.''],
         view_reset s))"

definition view_display_options :: "string option \<Rightarrow> state \<Rightarrow> result" where
  "view_display_options heard s =
     (case truthy heard of
        Some view_input0 \<Rightarrow>
          (let view_input = lower view_input0 in
           if (py_in ''view'' view_input \<and> py_in ''ticket'' view_input)
              \<or> py_in ''ticket id'' view_input then
             (case search_id view_input of
                Some ticket_id \<Rightarrow> view_lookup ticket_id s
              | None \<Rightarrow>
                  (Returned,
                   [''Please say the ticket ID you want to view.''],
                   s\<lparr>view_step := Some (Some AskId)\<rparr>))
           else if py_in ''download'' view_input then
             (case search_id view_input of
                Some ticket_id \<Rightarrow>
                  (Rerun, [],
                   s\<lparr>view_step := Some (Some DownloadTicket),
                      ticket_id_to_download := Some ticket_id\<rparr>)
              | None \<Rightarrow>
                  (case last_viewed_ticket_id s of
                     Some ticket_id \<Rightarrow>
                       (Rerun,
                        [''Preparing to download your last viewed ticket.''],
                        s\<lparr>view_step := Some (Some DownloadTicket),
                           ticket_id_to_download := Some ticket_id\<rparr>)
                   | None \<Rightarrow>
                       (Returned,
                        [''I don't know which ticket to download. Please view a ticket first.''],
                        s)))
           else
             (case search_id view_input of
                Some ticket_id \<Rightarrow> view_lookup ticket_id s
              | None \<Rightarrow>
                  if py_in ''all'' view_input \<or> py_in ''show all'' view_input
                     \<or> py_in ''list all'' view_input
                  then view_all s
                  else view_by_name view_input s))
      | None \<Rightarrow>
          (Returned,
           [''I couldn't hear your input. Please say a ticket ID, name, or 'All tickets' to see all bookings.''],
           s))"

definition view_ask_name :: "string option \<Rightarrow> state \<Rightarrow> result" where
  "view_ask_name heard s =
     (case truthy heard of
        Some name_input \<Rightarrow> view_by_name name_input s
      | None \<Rightarrow>
          (Returned, [''I couldn't hear your input. Please say a name to search for.''], s))"

definition view_ask_id :: "string option \<Rightarrow> state \<Rightarrow> result" where
  "view_ask_id heard s =
     (case truthy heard of
        Some id_input \<Rightarrow>
          (case search_id id_input of
             Some ticket_id \<Rightarrow>
               (case get_ticket_by_id ticket_id (tickets s) of
                  Some ticket \<Rightarrow>
                    (Returned,
                     [found_info ticket,
                      ''You can download your ticket as a PDF file using the download link on the screen.''],
                     view_reset s)
                | None \<Rightarrow>
                    (Returned,
                     [''No ticket found with ID '' @ ticket_id
                      @ ''. Please try again or say 'main menu' to return.''],
                     s))
           | None \<Rightarrow>
               (Returned,
                [''I couldn't recognize a ticket ID in what you said. Ticket IDs consist of 8 letters and numbers. Please try again or say 'main menu' to return.''],
                s))
      | None \<Rightarrow>
          (Returned, [''I couldn't hear your input. Please say the ticket ID clearly.''], s))"

text \<open>
  The \<^verbatim>\<open>download_ticket\<close> step does not listen. Without the attribute
  \<^verbatim>\<open>ticket_id_to_download\<close> neither branch of the source applies and nothing happens.
\<close>

definition view_download_ticket :: "state \<Rightarrow> result" where
  "view_download_ticket s =
     (case ticket_id_to_download s of
        Some ticket_id \<Rightarrow>
          (case get_ticket_by_id ticket_id (tickets s) of
             Some ticket \<Rightarrow>
               (Returned,
                [''Your ticket for '' @ t_name ticket @ '' traveling from '' @ t_source ticket
                 @ '' to '' @ t_destination ticket
                 @ '' is ready for download. Click the Download Ticket PDF button on your screen. It's a large blue button near the middle of the screen.''],
                (view_reset s)\<lparr>ticket_id_to_download := None\<rparr>)
           | None \<Rightarrow>
               (Returned,
                [''Sorry, I couldn't find a ticket with ID '' @ ticket_id
                 @ ''. Please try again with a valid ticket ID.''],
                s\<lparr>view_step := Some (Some DisplayOptions)\<rparr>))
      | None \<Rightarrow> (Returned, [], s))"

definition view_options :: "string option \<Rightarrow> state \<Rightarrow> result" where
  "view_options heard s =
     (case truthy heard of
        Some next_command0 \<Rightarrow>
          (let next_command = lower next_command0 in
           if py_in ''download'' next_command then
             (case (case search_id next_command of
                      Some ticket_id \<Rightarrow> Some ticket_id
                    | None \<Rightarrow> last_viewed_ticket_id s) of
                None \<Rightarrow>
                  (Returned,
                   [''I don't have a ticket ID to download. Please view a ticket first by saying a ticket ID.''],
                   s\<lparr>view_step := Some (Some DisplayOptions)\<rparr>)
              | Some ticket_id \<Rightarrow>
                  (let s1 = s\<lparr>ticket_id_to_download := Some ticket_id\<rparr> in
                   case get_ticket_by_id ticket_id (tickets s1) of
                     Some ticket \<Rightarrow>
                       (Rerun, [], s1\<lparr>view_step := Some (Some DownloadTicket)\<rparr>)
                   | None \<Rightarrow>
                       (Returned,
                        [''Sorry, I couldn't find ticket with ID '' @ ticket_id
                         @ ''. Please try again.''],
                        s1\<lparr>view_step := Some (Some DisplayOptions),
                            ticket_id_to_download := None\<rparr>)))
           else if py_in ''main'' next_command \<or> py_in ''menu'' next_command
                   \<or> py_in ''back'' next_command then
             (Returned, [''Returning to main menu. Say a new command.''], view_reset s)
           else
             (Returned, [], s\<lparr>view_step := Some (Some DisplayOptions)\<rparr>))
      | None \<Rightarrow>
          (Returned,
           [''I couldn't hear your command. Say 'download ticket' to download or 'main menu' to return.''],
           s))"

definition process_view :: "string option \<Rightarrow> state \<Rightarrow> result" where
  "process_view heard s0 =
     (let s = (if view_step s0 = None then s0\<lparr>view_step := Some (Some DisplayOptions)\<rparr>
               else s0) in
      case view_step s of
        Some (Some DisplayOptions) \<Rightarrow> view_display_options heard s
      | Some (Some AskName) \<Rightarrow> view_ask_name heard s
      | Some (Some AskId) \<Rightarrow> view_ask_id heard s
      | Some (Some DownloadTicket) \<Rightarrow> view_download_ticket s
      | Some (Some ViewOptions) \<Rightarrow> view_options heard s
      | _ \<Rightarrow> (Returned, [], s))"

section \<open>One script run\<close>

definition with_notices :: "string list \<Rightarrow> result \<Rightarrow> result" where
  "with_notices ns r = (case r of (sig, ms, s) \<Rightarrow> (sig, ns @ ms, s))"

text \<open>
  \<^verbatim>\<open>main()\<close>: the pending success message, the one-shot display of the ticket just
  booked, then the dispatch on \<^verbatim>\<open>current_operation\<close>. \<open>heard\<close> is what
  \<^verbatim>\<open>listen_for_command()\<close> returns if the run calls it.
\<close>

definition main :: "env \<Rightarrow> string option \<Rightarrow> state \<Rightarrow> result" where
  "main e heard s0 =
     (let pending = (if show_success s0 then [success_message s0] else []);
          s1 = (if show_success s0 then s0\<lparr>show_success := False, success_message := []\<rparr>
                else s0);
          s = s1\<lparr>current_ticket := None\<rparr>
      in
      with_notices pending
        (case current_operation s of
           None \<Rightarrow> process_main_menu heard s
         | Some Book \<Rightarrow> process_booking e heard s
         | Some Modify \<Rightarrow> process_modification e heard s
         | Some Cancel \<Rightarrow> process_cancellation heard s
         | Some View \<Rightarrow> process_view heard s))"

text \<open>The script is run again after every run; one utterance (or none) is heard in each.\<close>

fun run :: "env \<Rightarrow> string option list \<Rightarrow> state \<Rightarrow> state" where
  "run e [] s = s"
| "run e (heard # rest) s = run e rest (snd (snd (main e heard s)))"

inductive reachable :: "state \<Rightarrow> bool" where
  start: "reachable initial_state"
| turn: "reachable s \<Longrightarrow> main e heard s = (sig, notices, s') \<Longrightarrow> reachable s'"

section \<open>Notice output\<close>










text \<open>
  The states in which a script run calls \<^verbatim>\<open>listen_for_command()\<close>: the main menu
  and every sub-step of the four operations, except \<^verbatim>\<open>download_ticket\<close>, which
  renders the download without listening.
\<close>

definition awaits_speech :: "state \<Rightarrow> bool" where
  "awaits_speech s =
     (case current_operation s of
        None \<Rightarrow> True
      | Some Book \<Rightarrow> booking_step s \<noteq> None
      | Some Modify \<Rightarrow> modify_step s \<noteq> None
      | Some Cancel \<Rightarrow> cancel_step s \<noteq> None
      | Some View \<Rightarrow>
          (case view_step s of
             Some (Some step) \<Rightarrow> step \<noteq> DownloadTicket
           | _ \<Rightarrow> False))"

text \<open>
  The prompt of each step for a turn in which nothing was heard: the text in the
  \<^verbatim>\<open>else\<close> branch of that step's \<^verbatim>\<open>if command:\<close> (app.py 307; 323, 347, 371, 399,
  434, 501, 550; 603, 683, 695, 718, 739, 766, 796; 848, 893; 1085, 1124, 1169, 1271).
\<close>

definition no_input_prompt :: "state \<Rightarrow> string" where
  "no_input_prompt s =
     (case current_operation s of
        None \<Rightarrow>
          ''I'm listening for your command. Say 'Book a ticket', 'Modify a ticket' followed by a name or ID, 'Cancel a ticket' followed by a name or ID, 'View tickets', 'Look up ticket ID', or 'Search by name'. You can also say 'Help' for a list of all commands.''
      | Some Book \<Rightarrow>
          (case booking_step s of
             Some BName \<Rightarrow> ''I couldn't hear your name. Please say your full name.''
           | Some BAge \<Rightarrow> ''I couldn't hear your age. Please say your age as a number.''
           | Some BGender \<Rightarrow> ''I couldn't hear your gender. Please say Male, Female, or Other.''
           | Some BSource \<Rightarrow>
               ''I couldn't hear your source station. Please say the name of your departure station.''
           | Some BDestination \<Rightarrow>
               ''I couldn't hear your destination station. Please say the name of your arrival station.''
           | Some BTravelDate \<Rightarrow>
               ''I couldn't hear your travel date. Please say a date like 'March 30' or 'tomorrow'.''
           | Some BConfirm \<Rightarrow>
               ''I couldn't hear your response. Please say 'Confirm' to book the ticket or 'Cancel' to abort.''
           | None \<Rightarrow> [])
      | Some Modify \<Rightarrow>
          (case modify_step s of
             Some MSelectTicket \<Rightarrow>
               ''I couldn't hear your command. Please say the ID or passenger name of the ticket you want to modify.''
           | Some MSelectField \<Rightarrow>
               ''I couldn't hear your command. Please specify what you want to modify: name, age, gender, source, or destination.''
           | Some UpdateName \<Rightarrow> ''I couldn't hear your input. Please say the new name.''
           | Some UpdateAge \<Rightarrow> ''I couldn't hear your input. Please say the new age.''
           | Some UpdateGender \<Rightarrow>
               ''I couldn't hear your input. Please say Male, Female, or Other.''
           | Some UpdateSource \<Rightarrow>
               ''I couldn't hear your input. Please say the new source station.''
           | Some UpdateDestination \<Rightarrow>
               ''I couldn't hear your input. Please say the new destination station.''
           | None \<Rightarrow> [])
      | Some Cancel \<Rightarrow>
          (case cancel_step s of
             Some CSelectTicket \<Rightarrow>
               ''I couldn't hear your command. Please say the ID or passenger name of the ticket you want to cancel.''
           | Some CConfirm \<Rightarrow>
               ''I couldn't hear your command. Please say 'Confirm' to cancel the ticket or 'No' to keep it.''
           | None \<Rightarrow> [])
      | Some View \<Rightarrow>
          (case view_step s of
             Some (Some DisplayOptions) \<Rightarrow>
               ''I couldn't hear your input. Please say a ticket ID, name, or 'All tickets' to see all bookings.''
           | Some (Some AskName) \<Rightarrow>
               ''I couldn't hear your input. Please say a name to search for.''
           | Some (Some AskId) \<Rightarrow>
               ''I couldn't hear your input. Please say the ticket ID clearly.''
           | Some (Some ViewOptions) \<Rightarrow>
               ''I couldn't hear your command. Say 'download ticket' to download or 'main menu' to return.''
           | _ \<Rightarrow> []))"

text \<open>
  The invariant of the session state: at the main menu, or at a sub-step of the current
  operation.
\<close>

definition step_valid :: "state \<Rightarrow> bool" where
  "step_valid s =
     (awaits_speech s
      \<or> (current_operation s = Some View \<and> view_step s = Some (Some DownloadTicket)))"

text \<open>A property of the session state that a run leaves behind.\<close>

definition holds_after :: "(state \<Rightarrow> bool) \<Rightarrow> result \<Rightarrow> bool" where
  "holds_after P r = P (snd (snd r))"

text \<open>
  The invariant of the ticket store, and what the booking dialog keeps true of its buffer
  once the destination step has accepted a station.
\<close>

definition store_ok :: "ticket list \<Rightarrow> bool" where
  "store_ok ts = (\<forall>t\<in>set ts. t_source t \<noteq> t_destination t)"

definition booking_inv :: "state \<Rightarrow> bool" where
  "booking_inv s =
     (current_operation s = Some Book \<longrightarrow>
      (booking_step s = Some BTravelDate \<or> booking_step s = Some BConfirm) \<longrightarrow>
      (\<exists>d. d_destination (ticket_details s) = Some d \<and> d_source (ticket_details s) \<noteq> Some d))"

section \<open>A worked session\<close>

text \<open>
  Concrete inputs on which the properties below are evaluated: an environment, the
  session after one booking, and two sessions that continue it into the View operation.
\<close>

definition example_env :: env where
  "example_env =
     \<lparr>stations = [''Central'', ''North'', ''Eastside''], today = (2026, 11, 3),
      new_id = ''AB12CD34'', stamp = ''2026-11-03 10:00:00'', int_max_str_digits = 4300,
      unicode_age = (\<lambda>u. NoMatch), unicode_day = (\<lambda>u. None)\<rparr>"

definition example_ticket :: ticket where
  "example_ticket =
     \<lparr>t_id = ''AB12CD34'', t_name = ''Jane Doe'', t_age = 29, t_gender = ''Female'',
      t_source = ''Central'', t_destination = ''North'', t_travel_date = Some (2026, 11, 4),
      t_booking_time = ''2026-11-03 10:00:00''\<rparr>"

definition booked :: state where
  "booked =
     run example_env
       (map Some [''book a ticket'', ''Jane Doe'', ''29'', ''female'', ''Central'', ''North'',
                  ''tomorrow'', ''confirm''])
       initial_state"

definition viewing :: state where
  "viewing = run example_env (map Some [''view'', ''ab12cd34'']) booked"

definition asking_id :: state where
  "asking_id = run example_env [Some ''lookup id''] booked"

definition choosing_view :: state where
  "choosing_view = run example_env [Some ''show my trips''] booked"

text \<open>
  The age parser in the words of the specification: the first run of digits in the
  utterance.
\<close>

definition first_digit_run :: "string \<Rightarrow> string" where
  "first_digit_run s = takeWhile is_ascii_digit (dropWhile (\<lambda>c. \<not> is_ascii_digit c) s)"

text \<open>
  A run of digits \<open>ds\<close> that stands between \<open>pre\<close> and \<open>post\<close> as a word of its
  own: no word character directly before it or after it. \<open>prev\<close> says whether a word
  character precedes the whole string.
\<close>

definition delimited :: "bool \<Rightarrow> string \<Rightarrow> string \<Rightarrow> string \<Rightarrow> bool" where
  "delimited prev pre ds post =
     (ds \<noteq> [] \<and> list_all is_ascii_digit ds
      \<and> (if pre = [] then \<not> prev else \<not> is_ascii_word_char (last pre))
      \<and> (post = [] \<or> \<not> is_ascii_word_char (hd post)))"

definition at_age :: state where
  "at_age = run example_env (map Some [''book a ticket'', ''Jane Doe'']) initial_state"

definition at_update_age :: state where
  "at_update_age = run example_env (map Some [''change something'', ''AB12CD34'', ''age'']) booked"

definition editing :: state where
  "editing = run example_env [Some ''45''] at_update_age"

definition source_edited :: state where
  "source_edited =
     run example_env
       (map Some [''change something'', ''AB12CD34'', ''source'', ''North'', ''save'']) booked"

section \<open>Properties of the station resolver\<close>

lemma match_loop_None:
  "match_loop inp sts bm bs = None \<Longrightarrow>
     bm = None \<and> (\<forall>x\<in>set sts. candidate inp x \<longrightarrow> overlap (lower inp) (lower x) \<le> bs)"
proof (induction sts arbitrary: bm bs)
  case Nil
  then show ?case by simp
next
  case (Cons station rest)
  show ?case
  proof (cases "candidate inp station \<and> bs < overlap (lower inp) (lower station)")
    case True
    with Cons.prems have "match_loop inp rest (Some station) (overlap (lower inp) (lower station)) = None"
      by (simp add: Let_def)
    from Cons.IH [OF this] show ?thesis by simp
  next
    case False
    with Cons.prems have "match_loop inp rest bm bs = None"
      by (auto simp: Let_def split: if_splits)
    from Cons.IH [OF this] False show ?thesis by auto
  qed
qed

lemma match_loop_Some:
  "match_loop inp sts bm bs = Some st \<Longrightarrow>
     (bm = Some st \<and> (\<forall>x\<in>set sts. candidate inp x \<longrightarrow> overlap (lower inp) (lower x) \<le> bs))
     \<or> (\<exists>pre post. sts = pre @ st # post \<and> candidate inp st
           \<and> bs < overlap (lower inp) (lower st)
           \<and> (\<forall>x\<in>set pre. candidate inp x \<longrightarrow>
                  overlap (lower inp) (lower x) < overlap (lower inp) (lower st))
           \<and> (\<forall>x\<in>set post. candidate inp x \<longrightarrow>
                  overlap (lower inp) (lower x) \<le> overlap (lower inp) (lower st)))"
proof (induction sts arbitrary: bm bs)
  case Nil
  then show ?case by simp
next
  case (Cons station rest)
  let ?sc = "\<lambda>x. overlap (lower inp) (lower x)"
  show ?case
  proof (cases "candidate inp station \<and> bs < ?sc station")
    case True
    with Cons.prems have run: "match_loop inp rest (Some station) (?sc station) = Some st"
      by (simp add: Let_def)
    from Cons.IH [OF run] show ?thesis
    proof (elim disjE conjE exE)
      assume eq: "Some station = Some st"
        and le: "\<forall>x\<in>set rest. candidate inp x \<longrightarrow> ?sc x \<le> ?sc station"
      have "station # rest = [] @ st # rest" using eq by simp
      moreover have "candidate inp st" "bs < ?sc st" using True eq by auto
      moreover have "\<forall>x\<in>set rest. candidate inp x \<longrightarrow> ?sc x \<le> ?sc st" using le eq by simp
      ultimately show ?thesis by (intro disjI2 exI [of _ "[]"] exI [of _ rest]) simp
    next
      fix pre post
      assume split: "rest = pre @ st # post" and c: "candidate inp st"
        and gt: "?sc station < ?sc st"
        and before: "\<forall>x\<in>set pre. candidate inp x \<longrightarrow> ?sc x < ?sc st"
        and after: "\<forall>x\<in>set post. candidate inp x \<longrightarrow> ?sc x \<le> ?sc st"
      have "station # rest = (station # pre) @ st # post" using split by simp
      moreover have "bs < ?sc st" using True gt by simp
      moreover have "\<forall>x\<in>set (station # pre). candidate inp x \<longrightarrow> ?sc x < ?sc st"
        using before gt by simp
      ultimately show ?thesis using c after
        by (intro disjI2 exI [of _ "station # pre"] exI [of _ post]) simp
    qed
  next
    case False
    with Cons.prems have run: "match_loop inp rest bm bs = Some st"
      by (auto simp: Let_def split: if_splits)
    from Cons.IH [OF run] show ?thesis
    proof (elim disjE conjE exE)
      assume "bm = Some st"
        and "\<forall>x\<in>set rest. candidate inp x \<longrightarrow> ?sc x \<le> bs"
      with False show ?thesis by auto
    next
      fix pre post
      assume split: "rest = pre @ st # post" and c: "candidate inp st"
        and gt: "bs < ?sc st"
        and before: "\<forall>x\<in>set pre. candidate inp x \<longrightarrow> ?sc x < ?sc st"
        and after: "\<forall>x\<in>set post. candidate inp x \<longrightarrow> ?sc x \<le> ?sc st"
      have "station # rest = (station # pre) @ st # post" using split by simp
      moreover have "\<forall>x\<in>set (station # pre). candidate inp x \<longrightarrow> ?sc x < ?sc st"
        using before gt False by auto
      ultimately show ?thesis using c after gt
        by (intro disjI2 exI [of _ "station # pre"] exI [of _ post]) simp
    qed
  qed
qed

lemma overlap_card: "overlap a b = card (set a \<inter> set b)"
proof -
  have "set (filter (\<lambda>c. c \<in> set b) a) = set a \<inter> set b" by auto
  then show ?thesis by (simp add: overlap_def length_remdups_card_conv)
qed

lemmas resolver_eval =
  find_best_match_def candidate_def overlap_def lower_def lower_char_def Let_def

text \<open>
  C5, as stated: the resolver would return "Central" for "cntrl". It does not: no catalog
  entry is a candidate, since "cntrl" is not a substring of "central" (nor the reverse).
\<close>

theorem station_resolver_cntrl_counterexample:
  "find_best_match ''cntrl'' [''Central'', ''Eastside''] \<noteq> Some ''Central''"
  by (simp add: resolver_eval)

text \<open>
  C5, amended: the resolver follows the documented algorithm. A returned station is a
  catalog entry that is a candidate (one lower-cased string is a substring of the other)
  with a positive character-set overlap, strictly greater than that of every candidate
  before it in the catalog and at least that of every candidate after it; no match means
  no candidate shares a character. For "cntrl" against ["Central", "Eastside"] neither
  string contains the other, and the result is no match.
\<close>

theorem station_resolver_algorithm:
  "(find_best_match inp sts = Some st \<longrightarrow>
      (\<exists>pre post. sts = pre @ st # post
         \<and> (py_in (lower inp) (lower st) \<or> py_in (lower st) (lower inp))
         \<and> 0 < card (set (lower inp) \<inter> set (lower st))
         \<and> (\<forall>x\<in>set pre. candidate inp x \<longrightarrow>
               card (set (lower inp) \<inter> set (lower x)) < card (set (lower inp) \<inter> set (lower st)))
         \<and> (\<forall>x\<in>set post. candidate inp x \<longrightarrow>
               card (set (lower inp) \<inter> set (lower x)) \<le> card (set (lower inp) \<inter> set (lower st)))))
   \<and> (find_best_match inp sts = None \<longrightarrow>
        (\<forall>x\<in>set sts. candidate inp x \<longrightarrow> card (set (lower inp) \<inter> set (lower x)) = 0))
   \<and> \<not> py_in (lower ''cntrl'') (lower ''Central'')
   \<and> \<not> py_in (lower ''Central'') (lower ''cntrl'')
   \<and> find_best_match ''cntrl'' [''Central'', ''Eastside''] = None"
proof (intro conjI impI)
  assume "find_best_match inp sts = Some st"
  then have "match_loop inp sts None 0 = Some st" by (simp add: find_best_match_def)
  from match_loop_Some [OF this]
  show "\<exists>pre post. sts = pre @ st # post
         \<and> (py_in (lower inp) (lower st) \<or> py_in (lower st) (lower inp))
         \<and> 0 < card (set (lower inp) \<inter> set (lower st))
         \<and> (\<forall>x\<in>set pre. candidate inp x \<longrightarrow>
               card (set (lower inp) \<inter> set (lower x)) < card (set (lower inp) \<inter> set (lower st)))
         \<and> (\<forall>x\<in>set post. candidate inp x \<longrightarrow>
               card (set (lower inp) \<inter> set (lower x)) \<le> card (set (lower inp) \<inter> set (lower st)))"
    unfolding overlap_card candidate_def by simp
next
  assume "find_best_match inp sts = None"
  then have "match_loop inp sts None 0 = None" by (simp add: find_best_match_def)
  from match_loop_None [OF this]
  show "\<forall>x\<in>set sts. candidate inp x \<longrightarrow> card (set (lower inp) \<inter> set (lower x)) = 0"
    unfolding overlap_card by simp
next
  show "\<not> py_in (lower ''cntrl'') (lower ''Central'')" by (simp add: lower_def lower_char_def)
  show "\<not> py_in (lower ''Central'') (lower ''cntrl'')" by (simp add: lower_def lower_char_def)
  show "find_best_match ''cntrl'' [''Central'', ''Eastside''] = None" by (simp add: resolver_eval)
qed

theorem station_resolver_algorithm_witness:
  "find_best_match ''central'' [''Eastside'', ''Central''] = Some ''Central''
   \<and> (\<exists>pre post. [''Eastside'', ''Central''] = pre @ ''Central'' # post
         \<and> 0 < card (set (lower ''central'') \<inter> set (lower ''Central'')))
   \<and> find_best_match ''cntrl'' [''Central'', ''Eastside''] = None"
proof -
  have a: "find_best_match ''central'' [''Eastside'', ''Central''] = Some ''Central''"
    by (simp add: resolver_eval)
  from station_resolver_algorithm [of "''central''" "[''Eastside'', ''Central'']" "''Central''"] a
  have "\<exists>pre post. [''Eastside'', ''Central''] = pre @ ''Central'' # post
         \<and> 0 < card (set (lower ''central'') \<inter> set (lower ''Central''))"
    by blast
  moreover from station_resolver_algorithm [of "''central''" "[''Eastside'', ''Central'']"]
  have "find_best_match ''cntrl'' [''Central'', ''Eastside''] = None"
    by blast
  ultimately show ?thesis using a by blast
qed

section \<open>Evaluation of the worked session\<close>

lemmas string_eval =
  lower_def lower_char_def upper_def upper_char_def is_ascii_digit_def is_ascii_word_char_def
  is_upper_alnum_def search_age_def search_day_def search_id_def match_digits_def
  match_day_def match_id_def nat_of_digits_def int_of_digits_def digit_val_def Let_def
  is_ascii_def py_int_def parse_age_def parse_day_def

lemmas booking_eval =
  main_def with_notices_def process_main_menu_def process_booking_def booking_name_def
  booking_age_def booking_gender_def booking_source_def booking_destination_def
  booking_travel_date_def booking_confirm_def record_travel_date_def required_def
  book_ticket_def find_best_match_def candidate_def overlap_def tomorrow_def
  days_in_month_def is_leap_def empty_details_def initial_state_def

lemma booked_eq:
  "booked =
     initial_state\<lparr>tickets := [example_ticket], first_run := False, show_success := True,
       success_message := ''Ticket booked successfully! Your ticket ID is AB12CD34. What would you like to do next?'',
       current_ticket := Some example_ticket\<rparr>"
  unfolding booked_def example_env_def example_ticket_def
  by (simp add: booking_eval string_eval)


lemmas view_eval =
  main_def with_notices_def process_main_menu_def process_view_def view_display_options_def
  view_lookup_def view_ask_id_def view_options_def view_reset_def get_ticket_by_id_def
  initial_state_def

lemma viewing_eq:
  "viewing =
     initial_state\<lparr>tickets := [example_ticket], first_run := False,
       current_operation := Some View, view_step := Some (Some ViewOptions),
       last_viewed_ticket_id := Some ''AB12CD34'',
       ticket_id_to_download := Some ''AB12CD34''\<rparr>"
  unfolding viewing_def booked_eq
  by (simp add: view_eval string_eval example_ticket_def)

lemma asking_id_eq:
  "asking_id =
     initial_state\<lparr>tickets := [example_ticket], first_run := False,
       current_operation := Some View, view_step := Some (Some AskId)\<rparr>"
  unfolding asking_id_def booked_eq
  by (simp add: view_eval string_eval example_ticket_def)

lemma choosing_view_eq:
  "choosing_view =
     initial_state\<lparr>tickets := [example_ticket], first_run := False,
       current_operation := Some View, view_step := Some (Some DisplayOptions)\<rparr>"
  unfolding choosing_view_def booked_eq
  by (simp add: view_eval string_eval example_ticket_def)

section \<open>Main-menu dispatch\<close>

text \<open>
  C3 at its failing inputs. The branches are tried in the order book, modify, cancel,
  view-all, view-by-name, view-by-id, help, fallback, and the first that matches wins.
  The utterances "ticket id" and "ticket number" contain "ticket" and start a booking;
  "find id" and "search id" contain "find" and "search" and ask for a passenger name.
  Of the five id-lookup phrases only "lookup id" reaches the \<open>ask_id\<close> step.
\<close>

theorem main_menu_id_phrases_shadowed:
  "process_main_menu (Some ''ticket id'') s =
     (Returned,
      (if first_run s then
         [''Welcome to the Railway Ticket Reservation System. This system is fully controlled by your voice. Say 'Book a ticket', 'Modify a ticket', 'Cancel a ticket', or 'View tickets'.'']
       else [])
      @ [''Starting new ticket booking process. Please tell me your name.''],
      s\<lparr>first_run := False, current_operation := Some Book, booking_step := Some BName\<rparr>)
   \<and> snd (snd (process_main_menu (Some ''ticket number'') s)) =
       s\<lparr>first_run := False, current_operation := Some Book, booking_step := Some BName\<rparr>
   \<and> snd (snd (process_main_menu (Some ''find id'') s)) =
       s\<lparr>first_run := False, current_operation := Some View, view_step := Some (Some AskName)\<rparr>
   \<and> snd (snd (process_main_menu (Some ''search id'') s)) =
       s\<lparr>first_run := False, current_operation := Some View, view_step := Some (Some AskName)\<rparr>
   \<and> snd (snd (process_main_menu (Some ''lookup id'') s)) =
       s\<lparr>first_run := False, current_operation := Some View, view_step := Some (Some AskId)\<rparr>"
  by (simp add: process_main_menu_def string_eval)

text \<open>
  C10 at its failing inputs. "Modify a ticket" and "Cancel a ticket" are the commands that
  the welcome and the help text of the application give for the two operations. Both
  contain "ticket", which the first branch of the dispatch tests for, so on an empty
  store (as on any other) they start a booking: nothing is said about there being no
  tickets, and \<open>current_operation\<close> is \<open>Book\<close>, not \<open>None\<close>. This is the defect of C3.
\<close>

theorem modify_a_ticket_starts_booking:
  "tickets initial_state = []
   \<and> current_operation initial_state = None
   \<and> main example_env (Some ''Modify a ticket'') initial_state =
       (Returned,
        [''Welcome to the Railway Ticket Reservation System. This system is fully controlled by your voice. Say 'Book a ticket', 'Modify a ticket', 'Cancel a ticket', or 'View tickets'.'',
         ''Starting new ticket booking process. Please tell me your name.''],
        initial_state\<lparr>first_run := False, current_operation := Some Book,
          booking_step := Some BName\<rparr>)
   \<and> main example_env (Some ''Cancel a ticket'') initial_state =
       (Returned,
        [''Welcome to the Railway Ticket Reservation System. This system is fully controlled by your voice. Say 'Book a ticket', 'Modify a ticket', 'Cancel a ticket', or 'View tickets'.'',
         ''Starting new ticket booking process. Please tell me your name.''],
        initial_state\<lparr>first_run := False, current_operation := Some Book,
          booking_step := Some BName\<rparr>)"
  by (simp add: main_def with_notices_def process_main_menu_def initial_state_def string_eval)

text \<open>
  The guard itself works for a command that reaches it: one that contains modify, edit or
  change (or cancel, delete or remove) and none of the keywords of an earlier branch.
  With an empty store such a command is answered with the notice that there are no
  tickets, and \<open>current_operation\<close> stays \<open>None\<close>.
\<close>

lemma empty_store_guard:
  assumes menu: "current_operation s = None"
    and empty: "tickets s = []"
    and heard: "truthy heard = Some command"
    and not_book: "\<not> (py_in ''book'' (lower command) \<or> py_in ''new'' (lower command)
                       \<or> py_in ''ticket'' (lower command))"
    and word: "py_in ''modify'' (lower command) \<or> py_in ''edit'' (lower command)
                 \<or> py_in ''change'' (lower command)
               \<or> py_in ''cancel'' (lower command) \<or> py_in ''delete'' (lower command)
                 \<or> py_in ''remove'' (lower command)"
  shows "fst (main e heard s) = Returned
    \<and> last (fst (snd (main e heard s))) =
        (if py_in ''modify'' (lower command) \<or> py_in ''edit'' (lower command)
            \<or> py_in ''change'' (lower command)
         then ''You don't have any tickets to modify. Say 'Book a ticket' to create a new booking.''
         else ''You don't have any tickets to cancel. Say 'Book a ticket' to create a new booking.'')
    \<and> current_operation (snd (snd (main e heard s))) = None
    \<and> tickets (snd (snd (main e heard s))) = []
    \<and> modify_step (snd (snd (main e heard s))) = modify_step s
    \<and> cancel_step (snd (snd (main e heard s))) = cancel_step s"
proof (cases "py_in ''modify'' (lower command) \<or> py_in ''edit'' (lower command)
            \<or> py_in ''change'' (lower command)")
  case True
  with menu empty heard not_book show ?thesis
    by (simp add: main_def with_notices_def process_main_menu_def Let_def)
next
  case False
  with word have "py_in ''cancel'' (lower command) \<or> py_in ''delete'' (lower command)
                 \<or> py_in ''remove'' (lower command)"
    by blast
  with False menu empty heard not_book show ?thesis
    by (simp add: main_def with_notices_def process_main_menu_def Let_def)
qed

section \<open>Viewing\<close>

text \<open>
  C4, as stated, at the \<open>ask_id\<close> step: the utterance "ab12cd34" resolves to the
  ticket in the store, and the run ends at the main menu with no last-viewed id
  recorded and the View sub-step cleared, not at \<open>view_options\<close>.
\<close>

theorem ask_id_lookup_counterexample:
  "view_step asking_id = Some (Some AskId)
   \<and> search_id ''ab12cd34'' = Some ''AB12CD34''
   \<and> get_ticket_by_id ''AB12CD34'' (tickets asking_id) = Some example_ticket
   \<and> last_viewed_ticket_id (snd (snd (main example_env (Some ''ab12cd34'') asking_id))) = None
   \<and> view_step (snd (snd (main example_env (Some ''ab12cd34'') asking_id))) = Some None
   \<and> current_operation (snd (snd (main example_env (Some ''ab12cd34'') asking_id))) = None"
  unfolding asking_id_eq
  by (simp add: view_eval string_eval example_ticket_def)

text \<open>
  C4, amended: in the \<open>display_options\<close> step, every utterance that carries an id
  token of an existing ticket and is a view/"ticket id" phrase or not a download command
  makes the controller announce the ticket, record its id as the last-viewed id (and as
  the id to download) and move to \<open>view_options\<close>. In the \<open>ask_id\<close> step a
  successful lookup announces the ticket and returns to the main menu.
\<close>

theorem display_options_lookup_records_last_viewed:
  assumes "truthy heard = Some u"
    and "(py_in ''view'' (lower u) \<and> py_in ''ticket'' (lower u)) \<or> py_in ''ticket id'' (lower u)
         \<or> \<not> py_in ''download'' (lower u)"
    and "search_id (lower u) = Some ticket_id"
    and "get_ticket_by_id ticket_id (tickets s) = Some ticket"
  shows "view_display_options heard s =
     (Returned,
      [found_info ticket,
       ''You can download your ticket as a PDF file using the download link on the screen. Say 'download ticket' to get your ticket.''],
      s\<lparr>last_viewed_ticket_id := Some (t_id ticket),
         ticket_id_to_download := Some (t_id ticket),
         current_operation := Some View,
         view_step := Some (Some ViewOptions)\<rparr>)
    \<and> t_id ticket = ticket_id
    \<and> (truthy heard' = Some u' \<longrightarrow> search_id u' = Some ticket_id \<longrightarrow>
         view_ask_id heard' s =
           (Returned,
            [found_info ticket,
             ''You can download your ticket as a PDF file using the download link on the screen.''],
            s\<lparr>current_operation := None, view_step := Some None\<rparr>))"
proof -
  from assms(4) have "t_id ticket = ticket_id"
    by (auto simp: get_ticket_by_id_def find_Some_iff)
  with assms show ?thesis
    by (auto simp: view_display_options_def view_lookup_def view_ask_id_def view_reset_def Let_def)
qed

text \<open>C4, amended, at "view ticket ab12cd34" and at "AB12CD34" in the \<open>display_options\<close> step after one booking.\<close>

theorem display_options_lookup_records_last_viewed_witness:
  "current_operation choosing_view = Some View
   \<and> view_step choosing_view = Some (Some DisplayOptions)
   \<and> view_display_options (Some ''view ticket ab12cd34'') choosing_view =
     (Returned,
      [found_info example_ticket,
       ''You can download your ticket as a PDF file using the download link on the screen. Say 'download ticket' to get your ticket.''],
      choosing_view\<lparr>last_viewed_ticket_id := Some ''AB12CD34'',
         ticket_id_to_download := Some ''AB12CD34'',
         current_operation := Some View,
         view_step := Some (Some ViewOptions)\<rparr>)
   \<and> view_ask_id (Some ''AB12CD34'') choosing_view =
           (Returned,
            [found_info example_ticket,
             ''You can download your ticket as a PDF file using the download link on the screen.''],
            choosing_view\<lparr>current_operation := None, view_step := Some None\<rparr>)"
proof -
  have a: "truthy (Some ''view ticket ab12cd34'') = Some ''view ticket ab12cd34''" by simp
  have b: "(py_in ''view'' (lower ''view ticket ab12cd34'') \<and> py_in ''ticket'' (lower ''view ticket ab12cd34''))
         \<or> py_in ''ticket id'' (lower ''view ticket ab12cd34'')
         \<or> \<not> py_in ''download'' (lower ''view ticket ab12cd34'')"
    by (simp add: string_eval)
  have c: "search_id (lower ''view ticket ab12cd34'') = Some ''AB12CD34''"
    by (simp add: string_eval)
  have d: "get_ticket_by_id ''AB12CD34'' (tickets choosing_view) = Some example_ticket"
    by (simp add: choosing_view_eq get_ticket_by_id_def example_ticket_def initial_state_def)
  have e: "truthy (Some ''AB12CD34'') = Some ''AB12CD34''" by simp
  have f: "search_id ''AB12CD34'' = Some ''AB12CD34''" by (simp add: string_eval)
  have g: "t_id example_ticket = ''AB12CD34''" by (simp add: example_ticket_def)
  have h: "current_operation choosing_view = Some View"
    "view_step choosing_view = Some (Some DisplayOptions)"
    by (simp_all add: choosing_view_eq initial_state_def)
  from display_options_lookup_records_last_viewed [OF a b c d, of "Some ''AB12CD34''" "''AB12CD34''"]
    e f g h
  show ?thesis by simp
qed

text \<open>
  The word "download" has eight letters, so in a download command that says it as a word
  of its own the id pattern finds the token DOWNLOAD, and the last-viewed id is not
  consulted.
\<close>

lemma download_word_read_as_id:
  "search_id ''download ticket'' = Some ''DOWNLOAD''
   \<and> main example_env (Some ''download ticket'') viewing =
       (Returned,
        [''Sorry, I couldn't find ticket with ID DOWNLOAD. Please try again.''],
        viewing\<lparr>view_step := Some (Some DisplayOptions), ticket_id_to_download := None\<rparr>)"
  unfolding viewing_eq
  by (simp add: view_eval string_eval example_ticket_def)

text \<open>
  C8, as stated, at the utterance "hello" in \<open>view_options\<close>: it is neither a
  download command nor a return to the main menu, yet the View sub-step becomes
  \<open>display_options\<close> and nothing is said.
\<close>

theorem view_options_other_utterance_counterexample:
  "current_operation viewing = Some View
   \<and> view_step viewing = Some (Some ViewOptions)
   \<and> \<not> py_in ''download'' (lower ''hello'')
   \<and> \<not> (py_in ''main'' (lower ''hello'') \<or> py_in ''menu'' (lower ''hello'')
          \<or> py_in ''back'' (lower ''hello''))
   \<and> view_step (snd (snd (main example_env (Some ''hello'') viewing))) = Some (Some DisplayOptions)
   \<and> fst (snd (main example_env (Some ''hello'') viewing)) = []"
  unfolding viewing_eq
  by (simp add: view_eval string_eval)

text \<open>
  C8, amended: in \<open>view_options\<close>, for every utterance that is neither a download
  command nor a return to the main menu, \<open>current_operation\<close> and every other
  attribute of the session keep their values except the View sub-step, which becomes
  \<open>display_options\<close>; the run returns without a notice.
\<close>

theorem view_options_other_utterance:
  assumes "view_step s = Some (Some ViewOptions)"
    and "truthy heard = Some u"
    and "\<not> py_in ''download'' (lower u)"
    and "\<not> (py_in ''main'' (lower u) \<or> py_in ''menu'' (lower u) \<or> py_in ''back'' (lower u))"
  shows "process_view heard s = (Returned, [], s\<lparr>view_step := Some (Some DisplayOptions)\<rparr>)"
  using assms by (simp add: process_view_def view_options_def Let_def)

text \<open>C8, amended, at the utterance "hello".\<close>

theorem view_options_other_utterance_witness:
  "process_view (Some ''hello'') viewing =
     (Returned, [], viewing\<lparr>view_step := Some (Some DisplayOptions)\<rparr>)"
proof -
  have "view_step viewing = Some (Some ViewOptions)" by (simp add: viewing_eq initial_state_def)
  moreover have "truthy (Some ''hello'') = Some ''hello''" by simp
  moreover have "\<not> py_in ''download'' (lower ''hello'')" by (simp add: string_eval)
  moreover have "\<not> (py_in ''main'' (lower ''hello'') \<or> py_in ''menu'' (lower ''hello'')
          \<or> py_in ''back'' (lower ''hello''))" by (simp add: string_eval)
  ultimately show ?thesis by (rule view_options_other_utterance)
qed

section \<open>Notice output\<close>







section \<open>Modification\<close>

lemmas modify_eval =
  main_def with_notices_def process_main_menu_def process_modification_def
  modify_select_ticket_def modify_select_field_def modify_update_age_def modify_reset_def
  get_selected_ticket_def get_ticket_by_id_def dict_of_ticket_def required_def
  initial_state_def empty_details_def

lemma at_age_eq:
  "at_age =
     initial_state\<lparr>first_run := False, current_operation := Some Book,
       booking_step := Some BAge,
       ticket_details := empty_details\<lparr>d_name := Some ''Jane Doe''\<rparr>\<rparr>"
  unfolding at_age_def example_env_def
  by (simp add: booking_eval string_eval)

lemma at_update_age_eq:
  "at_update_age =
     initial_state\<lparr>tickets := [example_ticket], first_run := False,
       current_operation := Some Modify, modify_step := Some UpdateAge,
       selected_ticket_id := Some ''AB12CD34'',
       ticket_details := dict_of_ticket example_ticket\<rparr>"
  unfolding at_update_age_def booked_eq
  by (simp add: modify_eval string_eval example_ticket_def)

lemma editing_eq:
  "editing =
     initial_state\<lparr>tickets := [example_ticket], first_run := False,
       current_operation := Some Modify, modify_step := Some MSelectField,
       selected_ticket_id := Some ''AB12CD34'',
       ticket_details := (dict_of_ticket example_ticket)\<lparr>d_age := Some 45\<rparr>\<rparr>"
  unfolding editing_def at_update_age_eq
  by (simp add: modify_eval string_eval example_ticket_def example_env_def)

text \<open>
  C1 at its failing input. After the booking of the worked session the user says
  "change something", "AB12CD34", "age", "45": the update step accepts 45, puts it into the
  buffer and returns to \<open>select_field\<close>. On "confirm" the run reports success and
  goes back to the main menu, and the ticket in the store still has the age 29: the
  \<open>select_field\<close> branch has copied the stored ticket over the buffer before it
  tested the keyword, so the commit writes back what the store already held.
\<close>

theorem modify_commit_discards_edit:
  "current_operation editing = Some Modify
   \<and> modify_step editing = Some MSelectField
   \<and> d_age (ticket_details editing) = Some 45
   \<and> fst (snd (main example_env (Some ''confirm'') editing))
       = [''Ticket updated successfully. Returning to main menu.'']
   \<and> current_operation (snd (snd (main example_env (Some ''confirm'') editing))) = None
   \<and> map t_age (tickets (snd (snd (main example_env (Some ''confirm'') editing)))) = [29]"
  unfolding editing_eq
  by (simp add: modify_eval string_eval example_ticket_def)

text \<open>
  The same for every session: a commit at \<open>select_field\<close> leaves the store as it
  was, whatever the buffer held.
\<close>

lemma modify_ticket_same:
  "get_ticket_by_id i ts = Some t \<Longrightarrow>
     modify_ticket i (t_name t) (t_age t) (t_gender t) (t_source t) (t_destination t) ts
       = (Some t, ts)"
  by (induction ts) (auto simp: get_ticket_by_id_def)

lemma select_field_commit_keeps_store:
  assumes "truthy heard = Some u"
    and "\<not> py_in ''name'' (lower u)" "\<not> py_in ''age'' (lower u)" "\<not> py_in ''gender'' (lower u)"
    and "\<not> py_in ''source'' (lower u)" "\<not> py_in ''destination'' (lower u)"
    and "py_in ''confirm'' (lower u) \<or> py_in ''update'' (lower u) \<or> py_in ''save'' (lower u)"
    and "selected_ticket_id s = Some i" and "get_ticket_by_id i (tickets s) = Some t"
  shows "modify_select_field heard s =
     (Returned, [''Ticket updated successfully. Returning to main menu.''],
      s\<lparr>tickets := tickets s, show_success := True,
         success_message := ''Ticket updated successfully! What would you like to do next?'',
         current_operation := None, modify_step := Some MSelectTicket,
         selected_ticket_id := None, ticket_details := empty_details\<rparr>)"
  using assms
  by (simp add: modify_select_field_def get_selected_ticket_def Let_def required_def
      dict_of_ticket_def modify_ticket_same modify_reset_def)

section \<open>The age parser\<close>

text \<open>
  The pattern \<^verbatim>\<open>\b(\d+)\b\<close> finds the leftmost run of digits that is a word of its
  own, and nothing when there is none.
\<close>

lemma is_ascii_digit_word: "is_ascii_digit c \<Longrightarrow> is_ascii_word_char c"
  by (auto simp: is_ascii_digit_def is_ascii_word_char_def)

lemma match_digits_iff:
  "match_digits prev s = Some ds \<longleftrightarrow> (\<exists>post. s = ds @ post \<and> delimited prev [] ds post)"
proof
  assume m: "match_digits prev s = Some ds"
  let ?run = "takeWhile is_ascii_digit s" and ?rest = "dropWhile is_ascii_digit s"
  from m have ds: "ds = ?run" and ne: "?run \<noteq> []" and b1: "boundary prev s"
    and b2: "boundary True ?rest"
    by (auto simp: match_digits_def Let_def split: if_splits)
  from ne obtain c cs where s: "s = c # cs" and c: "is_ascii_digit c"
    by (cases s) (auto split: if_splits)
  from b1 s c have "\<not> prev" by (simp add: is_ascii_digit_word)
  moreover from b2 have "?rest = [] \<or> \<not> is_ascii_word_char (hd ?rest)"
    by (cases ?rest) auto
  moreover have "list_all is_ascii_digit ?run"
    by (simp add: list_all_iff) (meson set_takeWhileD)
  moreover have "s = ?run @ ?rest" by simp
  ultimately show "\<exists>post. s = ds @ post \<and> delimited prev [] ds post"
    using ds ne unfolding delimited_def by (intro exI [of _ ?rest]) simp
next
  assume "\<exists>post. s = ds @ post \<and> delimited prev [] ds post"
  then obtain post where s: "s = ds @ post" and ne: "ds \<noteq> []" and dig: "list_all is_ascii_digit ds"
    and p: "\<not> prev" and e: "post = [] \<or> \<not> is_ascii_word_char (hd post)"
    unfolding delimited_def by auto
  from e have stop: "takeWhile is_ascii_digit post = []"
    by (cases post) (auto dest: is_ascii_digit_word)
  from dig have run: "takeWhile is_ascii_digit s = ds"
    unfolding s by (simp add: takeWhile_append2 list_all_iff stop)
  from dig have rest: "dropWhile is_ascii_digit s = post"
    unfolding s using stop by (simp add: dropWhile_append2 list_all_iff takeWhile_eq_Nil_iff
        dropWhile_eq_self_iff)
  from ne dig obtain c cs where "ds = c # cs" "is_ascii_digit c"
    by (cases ds) auto
  with p have "boundary prev s" unfolding s by (simp add: is_ascii_digit_word)
  moreover from e have "boundary True post" by (cases post) auto
  ultimately show "match_digits prev s = Some ds"
    using run rest ne by (simp add: match_digits_def Let_def)
qed

lemma match_digits_Nil [simp]: "match_digits prev [] = None"
  by (simp add: match_digits_def)

lemma delimited_Cons:
  "delimited prev (c # pre) ds post = delimited (is_ascii_word_char c) pre ds post"
  by (simp add: delimited_def)

lemma re_search_digits_Some:
  "re_search match_digits prev s = Some ds \<Longrightarrow>
     \<exists>pre post. s = pre @ ds @ post \<and> delimited prev pre ds post
       \<and> (\<forall>pre' ds' post'. s = pre' @ ds' @ post' \<and> delimited prev pre' ds' post'
             \<longrightarrow> length pre \<le> length pre')"
proof (induction s arbitrary: prev)
  case Nil
  then show ?case by simp
next
  case (Cons c cs)
  show ?case
  proof (cases "match_digits prev (c # cs)")
    case (Some g)
    with Cons.prems have "g = ds" by simp
    with Some obtain post where "c # cs = ds @ post" "delimited prev [] ds post"
      by (auto simp: match_digits_iff)
    then show ?thesis by (intro exI [of _ "[]"] exI [of _ post]) simp
  next
    case None
    with Cons.prems have "re_search match_digits (is_ascii_word_char c) cs = Some ds" by simp
    from Cons.IH [OF this] obtain pre post where
      cs: "cs = pre @ ds @ post" and d: "delimited (is_ascii_word_char c) pre ds post"
      and least: "\<And>pre' ds' post'. cs = pre' @ ds' @ post' \<Longrightarrow>
                    delimited (is_ascii_word_char c) pre' ds' post' \<Longrightarrow> length pre \<le> length pre'"
      by blast
    have "length (c # pre) \<le> length pre'"
      if dec: "c # cs = pre' @ ds' @ post'" and d': "delimited prev pre' ds' post'"
      for pre' ds' post'
    proof (cases pre')
      case Nil
      with dec d' have "match_digits prev (c # cs) = Some ds'"
        by (auto simp: match_digits_iff)
      with None show ?thesis by simp
    next
      case (Cons x pre'')
      with dec have "x = c" "cs = pre'' @ ds' @ post'" by simp_all
      with d' Cons least [of pre'' ds' post'] show ?thesis
        by (simp add: delimited_Cons)
    qed
    moreover have "c # cs = (c # pre) @ ds @ post" using cs by simp
    moreover have "delimited prev (c # pre) ds post" using d by (simp add: delimited_Cons)
    ultimately show ?thesis by blast
  qed
qed

lemma re_search_digits_None:
  "re_search match_digits prev s = None \<Longrightarrow>
     \<not> (\<exists>pre ds post. s = pre @ ds @ post \<and> delimited prev pre ds post)"
proof (induction s arbitrary: prev)
  case Nil
  then show ?case by (simp add: delimited_def)
next
  case (Cons c cs)
  from Cons.prems have no: "match_digits prev (c # cs) = None"
    and rest: "re_search match_digits (is_ascii_word_char c) cs = None"
    by (auto split: option.splits)
  show ?case
  proof
    assume "\<exists>pre ds post. c # cs = pre @ ds @ post \<and> delimited prev pre ds post"
    then obtain pre ds post where dec: "c # cs = pre @ ds @ post"
      and d: "delimited prev pre ds post" by blast
    show False
    proof (cases pre)
      case Nil
      with dec d have "match_digits prev (c # cs) = Some ds" by (auto simp: match_digits_iff)
      with no show False by simp
    next
      case (Cons x pre')
      with dec have "x = c" "cs = pre' @ ds @ post" by simp_all
      with d Cons Cons.IH [OF rest] show False by (auto simp: delimited_Cons)
    qed
  qed
qed

lemma no_digit_no_delimited:
  assumes "\<forall>c\<in>set u. \<not> is_ascii_digit c"
  shows "\<not> (\<exists>pre ds post. u = pre @ ds @ post \<and> delimited prev pre ds post)"
proof
  assume "\<exists>pre ds post. u = pre @ ds @ post \<and> delimited prev pre ds post"
  then obtain pre ds post where u: "u = pre @ ds @ post" and "ds \<noteq> []" "list_all is_ascii_digit ds"
    by (auto simp: delimited_def)
  then obtain c where "c \<in> set ds" "is_ascii_digit c" by (cases ds) auto
  with assms u show False by auto
qed

lemma search_age_no_digits:
  assumes "\<forall>c\<in>set u. \<not> is_ascii_digit c"
  shows "search_age u = None"
proof (cases "search_age u")
  case None
  then show ?thesis .
next
  case (Some ds)
  then have "re_search match_digits False u = Some ds" by (simp add: search_age_def)
  from re_search_digits_Some [OF this] no_digit_no_delimited [OF assms, of False]
  show ?thesis by blast
qed

text \<open>
  C7, as stated, at the utterance "a1" in the Book age step and in the Modify
  \<open>update_age\<close> step: the first run of digits is "1", a value the claim accepts, and
  the code rejects the utterance and holds the step, because the digit follows a letter
  and the pattern finds no match.
\<close>

theorem age_first_digit_run_counterexample:
  "first_digit_run ''a1'' = ''1''
   \<and> int_of_digits (first_digit_run ''a1'') = 1
   \<and> current_operation at_age = Some Book
   \<and> booking_step at_age = Some BAge
   \<and> main example_env (Some ''a1'') at_age
       = (Returned, [''I couldn't understand your age. Please say a number clearly.''], at_age)
   \<and> modify_step at_update_age = Some UpdateAge
   \<and> main example_env (Some ''a1'') at_update_age
       = (Returned, [''I couldn't understand your age. Please say a number clearly.''],
          at_update_age)"
  unfolding at_age_eq at_update_age_eq
  by (simp add: booking_eval modify_eval string_eval first_digit_run_def example_env_def)

lemma parse_age_ascii:
  "is_ascii u \<Longrightarrow>
     parse_age e u =
       (case search_age u of
          None \<Rightarrow> NoMatch
        | Some ds \<Rightarrow>
            if int_max_str_digits e \<noteq> 0 \<and> int_max_str_digits e < length ds then ValueError
            else Age (int_of_digits ds))"
  by (simp add: parse_age_def py_int_def split: option.split)

text \<open>
  C7, amended: the age parser extracts the leftmost run of digits that stands as a word
  of its own (no letter, digit or underscore directly before or after it) and accepts
  exactly the values 1 through 120. When the parser yields a number within 1 and 120 the
  age is accepted, stored in the buffer and the dialog advances; when the number is 0 or
  greater than 120, when there is no such run (in particular when the utterance has no
  digit), or when \<^verbatim>\<open>int()\<close> refuses the run because it has more digits than the
  interpreter's limit, the value is rejected with a corrective prompt and the session
  state is unchanged. The Book age step and the Modify \<open>update_age\<close> step behave alike.
  The acceptance and the rejection are proved for every utterance; what the parser
  yields is derived for utterances within ASCII, and taken from the environment for the
  others, where Python's Unicode tables decide.
\<close>

theorem age_parser_bounds:
  assumes heard: "truthy heard = Some u"
  shows "(parse_age e u = Age n \<and> 1 \<le> n \<and> n \<le> 120 \<longrightarrow>
          booking_age e heard s =
            (Returned,
             [''Age recorded as '' @ str_int n
              @ ''. Now, please say your gender: Male, Female, or Other.''],
             s\<lparr>ticket_details := (ticket_details s)\<lparr>d_age := Some n\<rparr>,
                booking_step := Some BGender\<rparr>)
          \<and> modify_update_age e heard s =
            (Returned,
             [''Age updated to '' @ str_int n
              @ ''. What else would you like to modify? Or say 'Confirm' to save changes.''],
             s\<lparr>ticket_details := (ticket_details s)\<lparr>d_age := Some n\<rparr>,
                modify_step := Some MSelectField\<rparr>))
    \<and> (parse_age e u = Age n \<and> (n < 1 \<or> 120 < n) \<longrightarrow>
          booking_age e heard s =
            (Returned, [''Age must be between 1 and 120. Please try again.''], s)
          \<and> modify_update_age e heard s =
            (Returned, [''Age must be between 1 and 120. Please try again.''], s))
    \<and> (parse_age e u = NoMatch \<or> parse_age e u = ValueError \<longrightarrow>
          booking_age e heard s =
            (Returned, [''I couldn't understand your age. Please say a number clearly.''], s)
          \<and> modify_update_age e heard s =
            (Returned, [''I couldn't understand your age. Please say a number clearly.''], s))
    \<and> (is_ascii u \<longrightarrow>
          (\<forall>ds. search_age u = Some ds \<longrightarrow>
             (\<exists>pre post. u = pre @ ds @ post \<and> delimited False pre ds post
                \<and> (\<forall>pre' ds' post'. u = pre' @ ds' @ post' \<and> delimited False pre' ds' post'
                      \<longrightarrow> length pre \<le> length pre'))
             \<and> parse_age e u =
                 (if int_max_str_digits e \<noteq> 0 \<and> int_max_str_digits e < length ds
                  then ValueError else Age (int_of_digits ds)))
          \<and> (search_age u = None \<longrightarrow>
               \<not> (\<exists>pre ds' post. u = pre @ ds' @ post \<and> delimited False pre ds' post)
               \<and> parse_age e u = NoMatch)
          \<and> ((\<forall>c\<in>set u. \<not> is_ascii_digit c) \<longrightarrow> parse_age e u = NoMatch))"
proof (intro conjI impI allI)
  assume "parse_age e u = Age n \<and> 1 \<le> n \<and> n \<le> 120"
  with heard show "booking_age e heard s =
            (Returned,
             [''Age recorded as '' @ str_int n
              @ ''. Now, please say your gender: Male, Female, or Other.''],
             s\<lparr>ticket_details := (ticket_details s)\<lparr>d_age := Some n\<rparr>,
                booking_step := Some BGender\<rparr>)"
    by (simp add: booking_age_def)
next
  assume "parse_age e u = Age n \<and> 1 \<le> n \<and> n \<le> 120"
  with heard show "modify_update_age e heard s =
            (Returned,
             [''Age updated to '' @ str_int n
              @ ''. What else would you like to modify? Or say 'Confirm' to save changes.''],
             s\<lparr>ticket_details := (ticket_details s)\<lparr>d_age := Some n\<rparr>,
                modify_step := Some MSelectField\<rparr>)"
    by (simp add: modify_update_age_def)
next
  assume "parse_age e u = Age n \<and> (n < 1 \<or> 120 < n)"
  with heard show "booking_age e heard s =
            (Returned, [''Age must be between 1 and 120. Please try again.''], s)"
    by (auto simp: booking_age_def)
next
  assume "parse_age e u = Age n \<and> (n < 1 \<or> 120 < n)"
  with heard show "modify_update_age e heard s =
            (Returned, [''Age must be between 1 and 120. Please try again.''], s)"
    by (auto simp: modify_update_age_def)
next
  assume "parse_age e u = NoMatch \<or> parse_age e u = ValueError"
  with heard show "booking_age e heard s =
            (Returned, [''I couldn't understand your age. Please say a number clearly.''], s)"
    by (auto simp: booking_age_def)
next
  assume "parse_age e u = NoMatch \<or> parse_age e u = ValueError"
  with heard show "modify_update_age e heard s =
            (Returned, [''I couldn't understand your age. Please say a number clearly.''], s)"
    by (auto simp: modify_update_age_def)
next
  fix ds
  assume "is_ascii u" and "search_age u = Some ds"
  then show "\<exists>pre post. u = pre @ ds @ post \<and> delimited False pre ds post
                \<and> (\<forall>pre' ds' post'. u = pre' @ ds' @ post' \<and> delimited False pre' ds' post'
                      \<longrightarrow> length pre \<le> length pre')"
    unfolding search_age_def by (intro re_search_digits_Some)
next
  fix ds
  assume "is_ascii u" and "search_age u = Some ds"
  then show "parse_age e u =
                 (if int_max_str_digits e \<noteq> 0 \<and> int_max_str_digits e < length ds
                  then ValueError else Age (int_of_digits ds))"
    by (simp add: parse_age_ascii)
next
  assume "is_ascii u" and "search_age u = None"
  then show "\<not> (\<exists>pre ds' post. u = pre @ ds' @ post \<and> delimited False pre ds' post)"
    unfolding search_age_def by (intro re_search_digits_None)
next
  assume "is_ascii u" and "search_age u = None"
  then show "parse_age e u = NoMatch" by (simp add: parse_age_ascii)
next
  assume "is_ascii u" and "\<forall>c\<in>set u. \<not> is_ascii_digit c"
  then show "parse_age e u = NoMatch"
    by (simp add: parse_age_ascii search_age_no_digits)
qed

text \<open>
  C7, amended, at the boundary values 1, 120, 0 and 121, at an utterance without digits,
  and at a run of 4301 digits with the value 7.
\<close>

theorem age_parser_bounds_witness:
  "booking_step (snd (snd (booking_age example_env (Some ''1'') at_age))) = Some BGender
   \<and> d_age (ticket_details (snd (snd (booking_age example_env (Some ''1'') at_age)))) = Some 1
   \<and> booking_step (snd (snd (booking_age example_env (Some ''I am 120 years old'') at_age)))
       = Some BGender
   \<and> d_age (ticket_details (snd (snd (booking_age example_env (Some ''I am 120 years old'') at_age))))
       = Some 120
   \<and> modify_step (snd (snd (modify_update_age example_env (Some ''120'') at_update_age)))
       = Some MSelectField
   \<and> booking_age example_env (Some ''0'') at_age
       = (Returned, [''Age must be between 1 and 120. Please try again.''], at_age)
   \<and> booking_age example_env (Some ''121'') at_age
       = (Returned, [''Age must be between 1 and 120. Please try again.''], at_age)
   \<and> modify_update_age example_env (Some ''200'') at_update_age
       = (Returned, [''Age must be between 1 and 120. Please try again.''], at_update_age)
   \<and> booking_age example_env (Some ''twenty'') at_age
       = (Returned, [''I couldn't understand your age. Please say a number clearly.''], at_age)
   \<and> booking_age example_env (Some (replicate 4300 CHR ''0'' @ ''7'')) at_age
       = (Returned, [''I couldn't understand your age. Please say a number clearly.''], at_age)"
proof -
  have t: "\<And>u. u \<noteq> [] \<Longrightarrow> truthy (Some u) = Some u" by simp
  have p: "parse_age example_env ''1'' = Age 1"
    "parse_age example_env ''I am 120 years old'' = Age 120"
    "parse_age example_env ''120'' = Age 120"
    "parse_age example_env ''0'' = Age 0"
    "parse_age example_env ''121'' = Age 121"
    "parse_age example_env ''200'' = Age 200"
    "parse_age example_env ''twenty'' = NoMatch"
    by (simp_all add: string_eval example_env_def)
  let ?long = "replicate 4300 CHR ''0'' @ ''7''"
  have dig: "list_all is_ascii_digit ?long"
    by (simp add: list_all_iff is_ascii_digit_def)
  have asc: "is_ascii ?long" by (simp add: is_ascii_def list_all_iff)
  have "delimited False [] ?long []" using dig by (simp add: delimited_def)
  then have "match_digits False ?long = Some ?long"
    using match_digits_iff [of False ?long ?long] by simp
  then have "search_age ?long = Some ?long"
    by (cases ?long) (simp_all add: search_age_def)
  then have long: "parse_age example_env ?long = ValueError"
    using asc by (simp add: parse_age_ascii example_env_def)
  have ne: "?long \<noteq> []" by simp
  note a = age_parser_bounds [where heard = "Some ''1''" and u = "''1''" and e = example_env
      and n = 1 and s = at_age, OF t]
  note b = age_parser_bounds [where heard = "Some ''I am 120 years old''"
      and u = "''I am 120 years old''" and e = example_env and n = 120 and s = at_age, OF t]
  note c = age_parser_bounds [where heard = "Some ''120''" and u = "''120''" and e = example_env
      and n = 120 and s = at_update_age, OF t]
  note d = age_parser_bounds [where heard = "Some ''0''" and u = "''0''" and e = example_env
      and n = 0 and s = at_age, OF t]
  note e = age_parser_bounds [where heard = "Some ''121''" and u = "''121''" and e = example_env
      and n = 121 and s = at_age, OF t]
  note f = age_parser_bounds [where heard = "Some ''200''" and u = "''200''" and e = example_env
      and n = 200 and s = at_update_age, OF t]
  note g = age_parser_bounds [where heard = "Some ''twenty''" and u = "''twenty''"
      and e = example_env and s = at_age, OF t]
  note h = age_parser_bounds [where heard = "Some ?long" and u = ?long
      and e = example_env and s = at_age, OF t [OF ne]]
  from a p have a': "booking_age example_env (Some ''1'') at_age =
      (Returned,
       [''Age recorded as '' @ str_int 1
        @ ''. Now, please say your gender: Male, Female, or Other.''],
       at_age\<lparr>ticket_details := (ticket_details at_age)\<lparr>d_age := Some 1\<rparr>,
          booking_step := Some BGender\<rparr>)"
    by simp
  from b p have b': "booking_age example_env (Some ''I am 120 years old'') at_age =
      (Returned,
       [''Age recorded as '' @ str_int 120
        @ ''. Now, please say your gender: Male, Female, or Other.''],
       at_age\<lparr>ticket_details := (ticket_details at_age)\<lparr>d_age := Some 120\<rparr>,
          booking_step := Some BGender\<rparr>)"
    by simp
  from c p have c': "modify_update_age example_env (Some ''120'') at_update_age =
      (Returned,
       [''Age updated to '' @ str_int 120
        @ ''. What else would you like to modify? Or say 'Confirm' to save changes.''],
       at_update_age\<lparr>ticket_details := (ticket_details at_update_age)\<lparr>d_age := Some 120\<rparr>,
          modify_step := Some MSelectField\<rparr>)"
    by simp
  from d p have d': "booking_age example_env (Some ''0'') at_age
       = (Returned, [''Age must be between 1 and 120. Please try again.''], at_age)"
    by simp
  from e p have e': "booking_age example_env (Some ''121'') at_age
       = (Returned, [''Age must be between 1 and 120. Please try again.''], at_age)"
    by simp
  from f p have f': "modify_update_age example_env (Some ''200'') at_update_age
       = (Returned, [''Age must be between 1 and 120. Please try again.''], at_update_age)"
    by simp
  from g p have g': "booking_age example_env (Some ''twenty'') at_age
       = (Returned, [''I couldn't understand your age. Please say a number clearly.''], at_age)"
    by simp
  from h long have h': "booking_age example_env (Some ?long) at_age
       = (Returned, [''I couldn't understand your age. Please say a number clearly.''], at_age)"
    by simp
  from a' b' c' d' e' f' g' h' show ?thesis by simp
qed

section \<open>Turns without input\<close>

lemma no_input_main_menu:
  "truthy heard = None \<Longrightarrow> current_operation s = None \<Longrightarrow>
     process_main_menu heard s =
       (Returned,
        (if first_run s then
           [''Welcome to the Railway Ticket Reservation System. This system is fully controlled by your voice. Say 'Book a ticket', 'Modify a ticket', 'Cancel a ticket', or 'View tickets'.'']
         else [])
        @ [no_input_prompt s],
        s\<lparr>first_run := False\<rparr>)"
  by (simp add: process_main_menu_def no_input_prompt_def Let_def)

lemma no_input_booking:
  assumes "truthy heard = None" and "current_operation s = Some Book"
    and "booking_step s \<noteq> None"
  shows "process_booking e heard s = (Returned, [no_input_prompt s], s)"
proof -
  from assms(3) obtain step where step: "booking_step s = Some step" by auto
  show ?thesis
    using assms(1,2) step
    by (cases step)
      (simp_all add: process_booking_def booking_name_def booking_age_def booking_gender_def
        booking_source_def booking_destination_def booking_travel_date_def booking_confirm_def
        no_input_prompt_def)
qed

lemma no_input_modification:
  assumes "truthy heard = None" and "current_operation s = Some Modify"
    and "modify_step s \<noteq> None"
  shows "process_modification e heard s = (Returned, [no_input_prompt s], s)"
proof -
  from assms(3) obtain step where step: "modify_step s = Some step" by auto
  show ?thesis
    using assms(1,2) step
    by (cases step)
      (simp_all add: process_modification_def modify_select_ticket_def modify_select_field_def
        modify_update_name_def modify_update_age_def modify_update_gender_def
        modify_update_source_def modify_update_destination_def no_input_prompt_def)
qed

lemma no_input_cancellation:
  assumes "truthy heard = None" and "current_operation s = Some Cancel"
    and "cancel_step s \<noteq> None"
  shows "process_cancellation heard s = (Returned, [no_input_prompt s], s)"
proof -
  from assms(3) obtain step where step: "cancel_step s = Some step" by auto
  show ?thesis
    using assms(1,2) step
    by (cases step)
      (simp_all add: process_cancellation_def cancel_select_ticket_def cancel_confirm_def
        no_input_prompt_def)
qed

lemma no_input_view:
  assumes "truthy heard = None" and "current_operation s = Some View"
    and "view_step s = Some (Some step)" and "step \<noteq> DownloadTicket"
  shows "process_view heard s = (Returned, [no_input_prompt s], s)"
  using assms
  by (cases step)
    (simp_all add: process_view_def view_display_options_def view_ask_name_def view_ask_id_def
      view_options_def no_input_prompt_def)

lemma no_input_prompt_nonempty: "awaits_speech s \<Longrightarrow> no_input_prompt s \<noteq> []"
  by (auto simp: awaits_speech_def no_input_prompt_def
      split: option.splits operation.splits booking_step.splits modify_step.splits
        cancel_step.splits view_step.splits)

text \<open>
  C6: in every state in which the run listens (the main menu and every sub-step of Book,
  Modify, Cancel and View that captures speech), a run in which
  \<^verbatim>\<open>listen_for_command()\<close> returns nothing (\<^verbatim>\<open>None\<close> or the empty string)
  returns after it has said the prompt of that very step, and leaves the ticket store,
  \<open>current_operation\<close>, the step of every operation, the field buffer and the selected
  ticket id as they were. The texts of the run are, in order: the pending success
  message if there is one, the welcome on the first run at the main menu, and then the
  step's own prompt for a silent turn, which is never empty.
\<close>

theorem no_input_is_noop:
  assumes listening: "awaits_speech s" and silent: "truthy heard = None"
  shows "fst (main e heard s) = Returned
    \<and> fst (snd (main e heard s)) \<noteq> []
    \<and> tickets (snd (snd (main e heard s))) = tickets s
    \<and> current_operation (snd (snd (main e heard s))) = current_operation s
    \<and> booking_step (snd (snd (main e heard s))) = booking_step s
    \<and> modify_step (snd (snd (main e heard s))) = modify_step s
    \<and> cancel_step (snd (snd (main e heard s))) = cancel_step s
    \<and> view_step (snd (snd (main e heard s))) = view_step s
    \<and> ticket_details (snd (snd (main e heard s))) = ticket_details s
    \<and> selected_ticket_id (snd (snd (main e heard s))) = selected_ticket_id s
    \<and> fst (snd (main e heard s)) =
        (if show_success s then [success_message s] else [])
        @ (if current_operation s = None \<and> first_run s then
             [''Welcome to the Railway Ticket Reservation System. This system is fully controlled by your voice. Say 'Book a ticket', 'Modify a ticket', 'Cancel a ticket', or 'View tickets'.'']
           else [])
        @ [no_input_prompt s]
    \<and> no_input_prompt s \<noteq> []"
proof -
  define s1 where
    "s1 = (if show_success s then s\<lparr>show_success := False, success_message := []\<rparr> else s)
            \<lparr>current_ticket := None\<rparr>"
  have same: "tickets s1 = tickets s" "current_operation s1 = current_operation s"
    "booking_step s1 = booking_step s" "modify_step s1 = modify_step s"
    "cancel_step s1 = cancel_step s" "view_step s1 = view_step s"
    "ticket_details s1 = ticket_details s" "selected_ticket_id s1 = selected_ticket_id s"
    "first_run s1 = first_run s"
    by (simp_all add: s1_def)
  have prompt: "no_input_prompt s1 = no_input_prompt s"
    by (simp only: no_input_prompt_def same)
  have ne: "no_input_prompt s \<noteq> []"
    using listening by (rule no_input_prompt_nonempty)
  have m: "main e heard s =
      with_notices (if show_success s then [success_message s] else [])
        (case current_operation s1 of
           None \<Rightarrow> process_main_menu heard s1
         | Some Book \<Rightarrow> process_booking e heard s1
         | Some Modify \<Rightarrow> process_modification e heard s1
         | Some Cancel \<Rightarrow> process_cancellation heard s1
         | Some View \<Rightarrow> process_view heard s1)"
    unfolding s1_def
    by (cases "show_success s"; cases "current_operation s")
      (simp_all add: main_def Let_def split: operation.split)
  show ?thesis
  proof (cases "current_operation s")
    case None
    then have "current_operation s1 = None" by (simp add: same)
    from no_input_main_menu [OF silent this] m same None prompt ne show ?thesis
      by (simp add: with_notices_def)
  next
    case (Some op)
    show ?thesis
    proof (cases op)
      case Book
      with Some listening have "current_operation s1 = Some Book" "booking_step s1 \<noteq> None"
        by (simp_all add: awaits_speech_def same)
      from no_input_booking [OF silent this, of e] m same Some Book prompt ne show ?thesis
        by (simp add: with_notices_def)
    next
      case Modify
      with Some listening have "current_operation s1 = Some Modify" "modify_step s1 \<noteq> None"
        by (simp_all add: awaits_speech_def same)
      from no_input_modification [OF silent this, of e] m same Some Modify prompt ne
      show ?thesis by (simp add: with_notices_def)
    next
      case Cancel
      with Some listening have "current_operation s1 = Some Cancel" "cancel_step s1 \<noteq> None"
        by (simp_all add: awaits_speech_def same)
      from no_input_cancellation [OF silent this] m same Some Cancel prompt ne
      show ?thesis by (simp add: with_notices_def)
    next
      case View
      with Some listening obtain step where "current_operation s1 = Some View"
        "view_step s1 = Some (Some step)" "step \<noteq> DownloadTicket"
        by (auto simp: awaits_speech_def same split: option.splits)
      from no_input_view [OF silent this] m same Some View prompt ne
      show ?thesis by (simp add: with_notices_def)
    qed
  qed
qed

text \<open>
  C6 in the middle of a modification, at the name step of a booking, and at the main menu
  with an empty transcription.
\<close>

theorem no_input_is_noop_witness:
  "main example_env None editing =
     (Returned,
      [''I couldn't hear your command. Please specify what you want to modify: name, age, gender, source, or destination.''],
      editing)
   \<and> current_operation editing = Some Modify
   \<and> modify_step editing = Some MSelectField
   \<and> fst (snd (main example_env None at_age))
       = [''I couldn't hear your age. Please say your age as a number.'']
   \<and> booking_step (snd (snd (main example_env None at_age))) = Some BAge
   \<and> fst (snd (main example_env (Some []) initial_state))
       = [''Welcome to the Railway Ticket Reservation System. This system is fully controlled by your voice. Say 'Book a ticket', 'Modify a ticket', 'Cancel a ticket', or 'View tickets'.'',
          ''I'm listening for your command. Say 'Book a ticket', 'Modify a ticket' followed by a name or ID, 'Cancel a ticket' followed by a name or ID, 'View tickets', 'Look up ticket ID', or 'Search by name'. You can also say 'Help' for a list of all commands.'']
   \<and> current_operation (snd (snd (main example_env (Some []) initial_state))) = None"
proof -
  have a: "awaits_speech editing" "awaits_speech initial_state" "awaits_speech at_age"
    by (simp_all add: awaits_speech_def editing_eq at_age_eq initial_state_def)
  have b: "truthy None = None" "truthy (Some []) = None" by simp_all
  have c: "current_operation editing = Some Modify" "modify_step editing = Some MSelectField"
    "show_success editing = False" "current_operation initial_state = None"
    "show_success initial_state = False" "first_run initial_state = True"
    "current_operation at_age = Some Book" "booking_step at_age = Some BAge"
    "show_success at_age = False"
    by (simp_all add: editing_eq at_age_eq initial_state_def)
  have p: "no_input_prompt editing =
      ''I couldn't hear your command. Please specify what you want to modify: name, age, gender, source, or destination.''"
    "no_input_prompt at_age = ''I couldn't hear your age. Please say your age as a number.''"
    "no_input_prompt initial_state =
      ''I'm listening for your command. Say 'Book a ticket', 'Modify a ticket' followed by a name or ID, 'Cancel a ticket' followed by a name or ID, 'View tickets', 'Look up ticket ID', or 'Search by name'. You can also say 'Help' for a list of all commands.''"
    by (simp_all add: no_input_prompt_def c)
  have whole: "main example_env None editing = (Returned, fst (snd (main example_env None editing)), editing)"
    unfolding editing_eq
    by (simp add: modify_eval)
  from no_input_is_noop [OF a(1) b(1), of example_env]
    no_input_is_noop [OF a(3) b(1), of example_env]
    no_input_is_noop [OF a(2) b(2), of example_env] c p whole
  show ?thesis by simp
qed

section \<open>The store invariant\<close>

text \<open>
  Every operation is followed through its steps: Modify and View never change the store,
  Cancel only removes tickets, and a booking reaches its confirmation with a destination
  in the buffer that differs from the source.
\<close>

lemma get_selected_ticketD:
  "get_selected_ticket s = Some (sel, t) \<Longrightarrow>
     selected_ticket_id s = Some sel \<and> get_ticket_by_id sel (tickets s) = Some t"
  by (auto simp: get_selected_ticket_def split: option.splits)

lemma modify_select_field_tickets:
  "tickets (snd (snd (modify_select_field heard s))) = tickets s"
proof (cases "truthy heard")
  case None
  then show ?thesis by (simp add: modify_select_field_def)
next
  case (Some u)
  show ?thesis
  proof (cases "get_selected_ticket s")
    case None
    with Some show ?thesis by (simp add: modify_select_field_def)
  next
    case sel: (Some p)
    obtain i t where p: "p = (i, t)" by (cases p)
    from sel p have "get_ticket_by_id i (tickets s) = Some t"
      by (simp add: get_selected_ticketD)
    then have "modify_ticket i (t_name t) (t_age t) (t_gender t) (t_source t) (t_destination t)
        (tickets s) = (Some t, tickets s)"
      by (rule modify_ticket_same)
    with Some sel p show ?thesis
      by (simp add: modify_select_field_def Let_def required_def dict_of_ticket_def
          modify_reset_def)
  qed
qed

lemma modify_select_field_op:
  "current_operation (snd (snd (modify_select_field heard s))) = current_operation s
   \<or> current_operation (snd (snd (modify_select_field heard s))) = None"
  by (simp add: modify_select_field_def Let_def modify_reset_def required_def dict_of_ticket_def
      split: option.split prod.split)

lemma modify_select_ticket_frame:
  "tickets (snd (snd (modify_select_ticket heard s))) = tickets s
   \<and> current_operation (snd (snd (modify_select_ticket heard s))) = current_operation s"
  by (simp add: modify_select_ticket_def split: option.split list.split)

lemma modify_update_frame:
  "tickets (snd (snd (modify_update_name heard s))) = tickets s"
  "current_operation (snd (snd (modify_update_name heard s))) = current_operation s"
  "tickets (snd (snd (modify_update_age e heard s))) = tickets s"
  "current_operation (snd (snd (modify_update_age e heard s))) = current_operation s"
  "tickets (snd (snd (modify_update_gender heard s))) = tickets s"
  "current_operation (snd (snd (modify_update_gender heard s))) = current_operation s"
  "tickets (snd (snd (modify_update_source e heard s))) = tickets s"
  "current_operation (snd (snd (modify_update_source e heard s))) = current_operation s"
  "tickets (snd (snd (modify_update_destination e heard s))) = tickets s"
  "current_operation (snd (snd (modify_update_destination e heard s))) = current_operation s"
  by (simp_all add: modify_update_name_def modify_update_age_def modify_update_gender_def
      modify_update_source_def modify_update_destination_def Let_def
      split: option.split age_parse.split)

lemma process_modification_tickets:
  "tickets (snd (snd (process_modification e heard s))) = tickets s"
  by (simp add: process_modification_def Let_def modify_select_field_tickets
      modify_select_ticket_frame modify_update_frame split: option.split modify_step.split)

lemma process_modification_op:
  "current_operation (snd (snd (process_modification e heard s))) = current_operation s
   \<or> current_operation (snd (snd (process_modification e heard s))) = None"
proof -
  define s1 where
    "s1 = (if modify_step s = None then s\<lparr>modify_step := Some MSelectTicket\<rparr> else s)"
  have op: "current_operation s1 = current_operation s" by (simp add: s1_def)
  have "process_modification e heard s =
      (case modify_step s1 of
        Some MSelectTicket \<Rightarrow> modify_select_ticket heard s1
      | Some MSelectField \<Rightarrow> modify_select_field heard s1
      | Some UpdateName \<Rightarrow> modify_update_name heard s1
      | Some UpdateAge \<Rightarrow> modify_update_age e heard s1
      | Some UpdateGender \<Rightarrow> modify_update_gender heard s1
      | Some UpdateSource \<Rightarrow> modify_update_source e heard s1
      | Some UpdateDestination \<Rightarrow> modify_update_destination e heard s1
      | None \<Rightarrow> (Returned, [], s1))"
    by (simp only: process_modification_def s1_def Let_def)
  then show ?thesis
    using modify_select_field_op [of heard s1] op
    by (simp add: modify_select_ticket_frame modify_update_frame
        split: option.split modify_step.split)
qed

lemma cancel_ticket_subset:
  "set (snd (cancel_ticket i ts)) \<subseteq> set ts"
  by (induction ts) (auto split: prod.splits)

lemma cancel_confirm_frame:
  "set (tickets (snd (snd (cancel_confirm heard s)))) \<subseteq> set (tickets s)
   \<and> (current_operation (snd (snd (cancel_confirm heard s))) = current_operation s
      \<or> current_operation (snd (snd (cancel_confirm heard s))) = None)"
proof (cases "selected_ticket_id s")
  case None
  then show ?thesis
    by (simp add: cancel_confirm_def Let_def cancel_reset_def split: option.split)
next
  case (Some i)
  obtain ok ts' where c: "cancel_ticket i (tickets s) = (ok, ts')" by (cases "cancel_ticket i (tickets s)")
  with cancel_ticket_subset [of i "tickets s"] have "set ts' \<subseteq> set (tickets s)" by simp
  with Some c show ?thesis
    by (simp add: cancel_confirm_def Let_def cancel_reset_def split: option.split)
qed

lemma cancel_select_ticket_frame:
  "tickets (snd (snd (cancel_select_ticket heard s))) = tickets s
   \<and> current_operation (snd (snd (cancel_select_ticket heard s))) = current_operation s"
  by (simp add: cancel_select_ticket_def split: option.split list.split)

lemma process_cancellation_frame:
  "set (tickets (snd (snd (process_cancellation heard s)))) \<subseteq> set (tickets s)
   \<and> (current_operation (snd (snd (process_cancellation heard s))) = current_operation s
      \<or> current_operation (snd (snd (process_cancellation heard s))) = None)"
proof -
  define s1 where
    "s1 = (if cancel_step s = None then s\<lparr>cancel_step := Some CSelectTicket\<rparr> else s)"
  have same: "current_operation s1 = current_operation s" "tickets s1 = tickets s"
    by (simp_all add: s1_def)
  have "process_cancellation heard s =
      (case cancel_step s1 of
        Some CSelectTicket \<Rightarrow> cancel_select_ticket heard s1
      | Some CConfirm \<Rightarrow> cancel_confirm heard s1
      | None \<Rightarrow> (Returned, [], s1))"
    by (simp only: process_cancellation_def s1_def Let_def)
  then show ?thesis
    using cancel_confirm_frame [of heard s1] cancel_select_ticket_frame [of heard s1] same
    by (simp split: option.split cancel_step.split)
qed

lemma holds_after_if:
  "holds_after P a \<Longrightarrow> holds_after P b \<Longrightarrow> holds_after P (if c then a else b)"
  by simp

lemma holds_after_option:
  "holds_after P a \<Longrightarrow> (\<And>y. holds_after P (f y)) \<Longrightarrow>
     holds_after P (case x of None \<Rightarrow> a | Some y \<Rightarrow> f y)"
  by (simp split: option.split)

lemma holds_after_tuple: "P s' \<Longrightarrow> holds_after P (sig, ns, s')"
  by (simp add: holds_after_def)

lemma holds_after_age:
  "(\<And>n. holds_after P (f n)) \<Longrightarrow> holds_after P a \<Longrightarrow> holds_after P b \<Longrightarrow>
     holds_after P (case x of Age n \<Rightarrow> f n | NoMatch \<Rightarrow> a | ValueError \<Rightarrow> b)"
  by (simp split: age_parse.split)

lemmas holds_after_intros =
  holds_after_if holds_after_option holds_after_tuple holds_after_age

lemma view_parts_after:
  assumes "current_operation s = Some View"
  shows "holds_after (\<lambda>s'. tickets s' = tickets s \<and> current_operation s' \<noteq> Some Book)
           (view_lookup i s)"
    and "holds_after (\<lambda>s'. tickets s' = tickets s \<and> current_operation s' \<noteq> Some Book)
           (view_all s)"
    and "holds_after (\<lambda>s'. tickets s' = tickets s \<and> current_operation s' \<noteq> Some Book)
           (view_by_name nm s)"
  unfolding view_lookup_def view_all_def view_by_name_def Let_def
  using assms by (intro holds_after_intros; simp add: view_reset_def)+

lemma view_display_options_after:
  assumes "current_operation s = Some View"
  shows "holds_after (\<lambda>s'. tickets s' = tickets s \<and> current_operation s' \<noteq> Some Book)
           (view_display_options heard s)"
  unfolding view_display_options_def Let_def
  using assms by (intro holds_after_intros view_parts_after; simp)

lemma view_steps_after:
  assumes "current_operation s = Some View"
  shows "holds_after (\<lambda>s'. tickets s' = tickets s \<and> current_operation s' \<noteq> Some Book)
           (view_ask_name heard s)"
    and "holds_after (\<lambda>s'. tickets s' = tickets s \<and> current_operation s' \<noteq> Some Book)
           (view_ask_id heard s)"
    and "holds_after (\<lambda>s'. tickets s' = tickets s \<and> current_operation s' \<noteq> Some Book)
           (view_download_ticket s)"
    and "holds_after (\<lambda>s'. tickets s' = tickets s \<and> current_operation s' \<noteq> Some Book)
           (view_options heard s)"
  unfolding view_ask_name_def view_ask_id_def view_download_ticket_def view_options_def Let_def
  using assms by (intro holds_after_intros view_parts_after; simp add: view_reset_def)+

lemma process_view_frame:
  assumes "current_operation s = Some View"
  shows "tickets (snd (snd (process_view heard s))) = tickets s"
    and "current_operation (snd (snd (process_view heard s))) \<noteq> Some Book"
proof -
  define s1 where
    "s1 = (if view_step s = None then s\<lparr>view_step := Some (Some DisplayOptions)\<rparr> else s)"
  have same: "current_operation s1 = Some View" "tickets s1 = tickets s"
    using assms by (simp_all add: s1_def)
  have unfold: "process_view heard s =
      (case view_step s1 of
        Some (Some DisplayOptions) \<Rightarrow> view_display_options heard s1
      | Some (Some AskName) \<Rightarrow> view_ask_name heard s1
      | Some (Some AskId) \<Rightarrow> view_ask_id heard s1
      | Some (Some DownloadTicket) \<Rightarrow> view_download_ticket s1
      | Some (Some ViewOptions) \<Rightarrow> view_options heard s1
      | _ \<Rightarrow> (Returned, [], s1))"
    by (simp only: process_view_def s1_def Let_def)
  have "holds_after (\<lambda>s'. tickets s' = tickets s1 \<and> current_operation s' \<noteq> Some Book)
          (process_view heard s)"
    unfolding unfold
    using same(1) view_display_options_after [OF same(1)] view_steps_after [OF same(1)]
    by (simp add: holds_after_def split: option.split view_step.split)
  with same show "tickets (snd (snd (process_view heard s))) = tickets s"
    and "current_operation (snd (snd (process_view heard s))) \<noteq> Some Book"
    by (simp_all add: holds_after_def)
qed

lemma process_main_menu_after:
  assumes "current_operation s = None"
  shows "holds_after
     (\<lambda>s'. tickets s' = tickets s
        \<and> (current_operation s' = Some Book \<longrightarrow> booking_step s' = Some BName))
     (process_main_menu heard s)"
  unfolding process_main_menu_def Let_def
  using assms by (intro holds_after_intros; simp)

lemma process_main_menu_frame:
  assumes "current_operation s = None"
  shows "tickets (snd (snd (process_main_menu heard s))) = tickets s"
    and "current_operation (snd (snd (process_main_menu heard s))) = Some Book \<Longrightarrow>
     booking_step (snd (snd (process_main_menu heard s))) = Some BName"
  using process_main_menu_after [OF assms, of heard] by (simp_all add: holds_after_def)

lemma requiredD:
  "required dt = Some (nm, ag, ge, so, de) \<Longrightarrow>
     d_source dt = Some so \<and> d_destination dt = Some de"
  by (auto simp: required_def split: option.splits)

lemma record_travel_date_inv:
  assumes "current_operation s = Some Book" and "booking_inv s"
    and "booking_step s = Some BTravelDate"
  shows "tickets (snd (snd (record_travel_date td s))) = tickets s
    \<and> booking_inv (snd (snd (record_travel_date td s)))"
  using assms
  by (auto simp: record_travel_date_def booking_inv_def Let_def split: option.split)

lemma booking_early_steps_inv:
  "booking_step s = Some BName \<Longrightarrow>
     tickets (snd (snd (booking_name heard s))) = tickets s
     \<and> booking_inv (snd (snd (booking_name heard s)))"
  "booking_step s = Some BAge \<Longrightarrow>
     tickets (snd (snd (booking_age e heard s))) = tickets s
     \<and> booking_inv (snd (snd (booking_age e heard s)))"
  "booking_step s = Some BGender \<Longrightarrow>
     tickets (snd (snd (booking_gender heard s))) = tickets s
     \<and> booking_inv (snd (snd (booking_gender heard s)))"
  "booking_step s = Some BSource \<Longrightarrow>
     tickets (snd (snd (booking_source e heard s))) = tickets s
     \<and> booking_inv (snd (snd (booking_source e heard s)))"
  "booking_step s = Some BDestination \<Longrightarrow>
     tickets (snd (snd (booking_destination e heard s))) = tickets s
     \<and> booking_inv (snd (snd (booking_destination e heard s)))"
  by (simp_all add: booking_name_def booking_age_def booking_gender_def booking_source_def
      booking_destination_def booking_inv_def Let_def split: option.split age_parse.split)

lemma booking_travel_date_inv:
  assumes "current_operation s = Some Book" and "booking_inv s"
    and "booking_step s = Some BTravelDate"
  shows "tickets (snd (snd (booking_travel_date e heard s))) = tickets s
    \<and> booking_inv (snd (snd (booking_travel_date e heard s)))"
  using assms record_travel_date_inv [OF assms]
  by (simp add: booking_travel_date_def Let_def split: option.split)

lemma booking_confirm_inv:
  assumes "current_operation s = Some Book" and "booking_inv s"
    and "booking_step s = Some BConfirm" and "store_ok (tickets s)"
  shows "store_ok (tickets (snd (snd (booking_confirm e heard s))))
    \<and> booking_inv (snd (snd (booking_confirm e heard s)))"
proof (cases "required (ticket_details s)")
  case None
  with assms show ?thesis
    by (simp add: booking_confirm_def Let_def booking_inv_def split: option.split)
next
  case (Some r)
  obtain nm ag ge so de where r: "r = (nm, ag, ge, so, de)" by (cases r)
  from Some r have "d_source (ticket_details s) = Some so"
    "d_destination (ticket_details s) = Some de"
    by (simp_all add: requiredD)
  with assms(1-3) have "so \<noteq> de" by (auto simp: booking_inv_def)
  with assms Some r show ?thesis
    by (simp add: booking_confirm_def Let_def booking_inv_def store_ok_def book_ticket_def
        split: option.split)
qed

lemma process_booking_inv:
  assumes "current_operation s = Some Book" and "booking_inv s" and "store_ok (tickets s)"
  shows "store_ok (tickets (snd (snd (process_booking e heard s))))
    \<and> booking_inv (snd (snd (process_booking e heard s)))"
proof (cases "booking_step s")
  case None
  with assms show ?thesis by (simp add: process_booking_def)
next
  case (Some step)
  with assms show ?thesis
    by (cases step)
      (simp_all add: process_booking_def booking_early_steps_inv booking_travel_date_inv
        booking_confirm_inv)
qed

lemma main_inv:
  assumes ok: "store_ok (tickets s)" and inv: "booking_inv s"
  shows "store_ok (tickets (snd (snd (main e heard s))))
    \<and> booking_inv (snd (snd (main e heard s)))"
proof -
  define s1 where
    "s1 = (if show_success s then s\<lparr>show_success := False, success_message := []\<rparr> else s)
            \<lparr>current_ticket := None\<rparr>"
  have same: "tickets s1 = tickets s" "current_operation s1 = current_operation s"
    by (simp_all add: s1_def)
  have inv1: "booking_inv s1" using inv by (simp add: booking_inv_def s1_def)
  have ok1: "store_ok (tickets s1)" using ok by (simp add: same)
  have snd_with: "\<And>ns r. snd (snd (with_notices ns r)) = snd (snd r)"
    by (simp add: with_notices_def split: prod.split)
  have m: "snd (snd (main e heard s)) =
      snd (snd (case current_operation s1 of
           None \<Rightarrow> process_main_menu heard s1
         | Some Book \<Rightarrow> process_booking e heard s1
         | Some Modify \<Rightarrow> process_modification e heard s1
         | Some Cancel \<Rightarrow> process_cancellation heard s1
         | Some View \<Rightarrow> process_view heard s1))"
    by (simp only: main_def s1_def Let_def snd_with)
  show ?thesis
  proof (cases "current_operation s1")
    case None
    from process_main_menu_frame [OF None, of heard] m None ok1 show ?thesis
      by (auto simp: booking_inv_def)
  next
    case (Some op)
    show ?thesis
    proof (cases op)
      case Book
      with Some m process_booking_inv [OF _ inv1 ok1, of e heard] show ?thesis by simp
    next
      case Modify
      with Some m ok1 process_modification_tickets [of e heard s1]
        process_modification_op [of e heard s1]
      show ?thesis by (auto simp: booking_inv_def)
    next
      case Cancel
      with Some m ok1 process_cancellation_frame [of heard s1]
      show ?thesis by (auto simp: booking_inv_def store_ok_def)
    next
      case View
      with Some have "current_operation s1 = Some View" by simp
      from process_view_frame [OF this, of heard] m Some View ok1
      show ?thesis by (auto simp: booking_inv_def)
    qed
  qed
qed

lemma reachable_inv: "reachable s \<Longrightarrow> store_ok (tickets s) \<and> booking_inv s"
proof (induction rule: reachable.induct)
  case start
  show ?case by (simp add: initial_state_def store_ok_def booking_inv_def)
next
  case (turn s e heard sig notices s')
  from turn.hyps(2) have "s' = snd (snd (main e heard s))" by simp
  with turn.IH main_inv [of s e heard] show ?case by simp
qed

lemma reachable_run: "reachable s \<Longrightarrow> reachable (run e inputs s)"
proof (induction inputs arbitrary: s)
  case Nil
  then show ?case by simp
next
  case (Cons heard rest)
  have "main e heard s = (fst (main e heard s), fst (snd (main e heard s)), snd (snd (main e heard s)))"
    by simp
  with Cons.prems have "reachable (snd (snd (main e heard s)))" by (rule reachable.turn)
  then show ?case using Cons.IH by simp
qed

text \<open>
  C2: in every session state that the dialog can reach from the initial state, by any
  sequence of utterances and silent turns in any environment, every ticket in the store
  has a source different from its destination. A booking cannot complete with equal
  source and destination, because the destination step refuses the station of the
  source; a Modify commit cannot leave such a ticket either, whichever field the user
  edited, because the commit writes the stored ticket's own fields back.
\<close>

theorem source_differs_from_destination:
  "reachable s \<Longrightarrow> \<forall>t\<in>set (tickets s). t_source t \<noteq> t_destination t"
  using reachable_inv [of s] by (simp add: store_ok_def)

lemma source_edited_eq:
  "source_edited =
     initial_state\<lparr>tickets := [example_ticket], first_run := False, show_success := True,
       success_message := ''Ticket updated successfully! What would you like to do next?'',
       modify_step := Some MSelectTicket\<rparr>"
  unfolding source_edited_def booked_eq
  by (simp add: modify_eval modify_update_source_def find_best_match_def candidate_def
      overlap_def modify_ticket_same string_eval example_ticket_def example_env_def)

text \<open>
  C2 after a modification in which the user changed the source to the station of the
  destination and saved.
\<close>

theorem source_differs_from_destination_witness:
  "reachable source_edited
   \<and> tickets source_edited = [example_ticket]
   \<and> t_source example_ticket \<noteq> t_destination example_ticket"
proof -
  have r: "reachable source_edited"
    unfolding source_edited_def booked_def
    by (intro reachable_run reachable.start)
  have t: "tickets source_edited = [example_ticket]"
    by (simp add: source_edited_eq initial_state_def)
  from source_differs_from_destination [OF r] t
  have "t_source example_ticket \<noteq> t_destination example_ticket" by simp
  with r t show ?thesis by simp
qed

section \<open>The step invariant\<close>

text \<open>
  Every state that the dialog can reach is at the main menu or at a sub-step of its
  current operation. So the states in which a run listens are all the reachable states
  but those at the \<open>download_ticket\<close> step of View.
\<close>

lemma holds_after_prod:
  "(\<And>a b. holds_after P (f a b)) \<Longrightarrow> holds_after P (case p of (a, b) \<Rightarrow> f a b)"
  by (simp split: prod.split)

lemma holds_after_list:
  "holds_after P a \<Longrightarrow> (\<And>x xs. holds_after P (f x xs)) \<Longrightarrow>
     holds_after P (case l of [] \<Rightarrow> a | x # xs \<Rightarrow> f x xs)"
  by (simp split: list.split)

lemmas holds_after_all = holds_after_intros holds_after_prod holds_after_list

lemmas step_valid_simps = step_valid_def awaits_speech_def

lemma process_main_menu_valid:
  assumes "current_operation s = None"
  shows "holds_after step_valid (process_main_menu heard s)"
  unfolding process_main_menu_def Let_def
  using assms by (intro holds_after_all; simp add: step_valid_simps)

lemma process_booking_valid:
  assumes "current_operation s = Some Book" and "booking_step s \<noteq> None"
  shows "holds_after step_valid (process_booking e heard s)"
proof -
  from assms(2) obtain step where step: "booking_step s = Some step" by auto
  have "holds_after step_valid (booking_name heard s)"
    "holds_after step_valid (booking_age e heard s)"
    "holds_after step_valid (booking_gender heard s)"
    "holds_after step_valid (booking_source e heard s)"
    "holds_after step_valid (booking_destination e heard s)"
    "holds_after step_valid (booking_travel_date e heard s)"
    "holds_after step_valid (booking_confirm e heard s)"
    unfolding booking_name_def booking_age_def booking_gender_def booking_source_def
      booking_destination_def booking_travel_date_def record_travel_date_def
      booking_confirm_def Let_def
    using assms(1) step
    by (intro holds_after_all; simp add: step_valid_simps)+
  with step show ?thesis
    by (cases step) (simp_all add: process_booking_def)
qed

lemma process_modification_valid:
  assumes "current_operation s = Some Modify" and "modify_step s \<noteq> None"
  shows "holds_after step_valid (process_modification e heard s)"
proof -
  from assms(2) obtain step where step: "modify_step s = Some step" by auto
  have "holds_after step_valid (modify_select_ticket heard s)"
    "holds_after step_valid (modify_select_field heard s)"
    "holds_after step_valid (modify_update_name heard s)"
    "holds_after step_valid (modify_update_age e heard s)"
    "holds_after step_valid (modify_update_gender heard s)"
    "holds_after step_valid (modify_update_source e heard s)"
    "holds_after step_valid (modify_update_destination e heard s)"
    unfolding modify_select_ticket_def modify_select_field_def modify_update_name_def
      modify_update_age_def modify_update_gender_def modify_update_source_def
      modify_update_destination_def modify_reset_def Let_def
    using assms(1) step
    by (intro holds_after_all; simp add: step_valid_simps)+
  with step show ?thesis
    by (cases step) (simp_all add: process_modification_def)
qed

lemma process_cancellation_valid:
  assumes "current_operation s = Some Cancel" and "cancel_step s \<noteq> None"
  shows "holds_after step_valid (process_cancellation heard s)"
proof -
  from assms(2) obtain step where step: "cancel_step s = Some step" by auto
  have "holds_after step_valid (cancel_select_ticket heard s)"
    "holds_after step_valid (cancel_confirm heard s)"
    unfolding cancel_select_ticket_def cancel_confirm_def cancel_reset_def Let_def
    using assms(1) step
    by (intro holds_after_all; simp add: step_valid_simps)+
  with step show ?thesis
    by (cases step) (simp_all add: process_cancellation_def)
qed

lemma process_view_valid:
  assumes "current_operation s = Some View" and "view_step s = Some (Some step)"
  shows "holds_after step_valid (process_view heard s)"
proof -
  have parts: "holds_after step_valid (view_lookup i s)" "holds_after step_valid (view_all s)"
    "holds_after step_valid (view_by_name nm s)" for i nm
    unfolding view_lookup_def view_all_def view_by_name_def view_reset_def Let_def
    using assms
    by (intro holds_after_all; simp add: step_valid_simps)+
  have "holds_after step_valid (view_display_options heard s)"
    "holds_after step_valid (view_ask_name heard s)"
    "holds_after step_valid (view_ask_id heard s)"
    "holds_after step_valid (view_download_ticket s)"
    "holds_after step_valid (view_options heard s)"
    unfolding view_display_options_def view_ask_name_def view_ask_id_def
      view_download_ticket_def view_options_def view_reset_def Let_def
    using assms
    by (intro holds_after_all parts; simp add: step_valid_simps)+
  with assms(2) show ?thesis
    by (cases step) (simp_all add: process_view_def)
qed

lemma main_valid:
  assumes "step_valid s"
  shows "step_valid (snd (snd (main e heard s)))"
proof -
  define s1 where
    "s1 = (if show_success s then s\<lparr>show_success := False, success_message := []\<rparr> else s)
            \<lparr>current_ticket := None\<rparr>"
  have same: "current_operation s1 = current_operation s" "booking_step s1 = booking_step s"
    "modify_step s1 = modify_step s" "cancel_step s1 = cancel_step s"
    "view_step s1 = view_step s"
    by (simp_all add: s1_def)
  have v1: "step_valid s1" using assms unfolding step_valid_simps same .
  have snd_with: "\<And>ns r. snd (snd (with_notices ns r)) = snd (snd r)"
    by (simp add: with_notices_def split: prod.split)
  have m: "snd (snd (main e heard s)) =
      snd (snd (case current_operation s1 of
           None \<Rightarrow> process_main_menu heard s1
         | Some Book \<Rightarrow> process_booking e heard s1
         | Some Modify \<Rightarrow> process_modification e heard s1
         | Some Cancel \<Rightarrow> process_cancellation heard s1
         | Some View \<Rightarrow> process_view heard s1))"
    by (simp only: main_def s1_def Let_def snd_with)
  show ?thesis
  proof (cases "current_operation s1")
    case None
    from process_main_menu_valid [OF None, of heard] m None show ?thesis
      by (simp add: holds_after_def)
  next
    case (Some op)
    show ?thesis
    proof (cases op)
      case Book
      with Some v1 have "current_operation s1 = Some Book" "booking_step s1 \<noteq> None"
        by (simp_all add: step_valid_simps)
      from process_booking_valid [OF this, of e heard] m Some Book show ?thesis
        by (simp add: holds_after_def)
    next
      case Modify
      with Some v1 have "current_operation s1 = Some Modify" "modify_step s1 \<noteq> None"
        by (simp_all add: step_valid_simps)
      from process_modification_valid [OF this, of e heard] m Some Modify show ?thesis
        by (simp add: holds_after_def)
    next
      case Cancel
      with Some v1 have "current_operation s1 = Some Cancel" "cancel_step s1 \<noteq> None"
        by (simp_all add: step_valid_simps)
      from process_cancellation_valid [OF this, of heard] m Some Cancel show ?thesis
        by (simp add: holds_after_def)
    next
      case View
      with Some v1 obtain step where "current_operation s1 = Some View"
        "view_step s1 = Some (Some step)"
        by (auto simp: step_valid_simps split: option.splits)
      from process_view_valid [OF this, of heard] m Some View show ?thesis
        by (simp add: holds_after_def)
    qed
  qed
qed

lemma reachable_step_valid: "reachable s \<Longrightarrow> step_valid s"
proof (induction rule: reachable.induct)
  case start
  show ?case by (simp add: initial_state_def step_valid_simps)
next
  case (turn s e heard sig notices s')
  from turn.hyps(2) have "s' = snd (snd (main e heard s))" by simp
  with turn.IH main_valid [of s e heard] show ?case by simp
qed

end
